theory Spec2Isabelle
  imports Main "HOL-Library.Sublist" "HOL-Library.AList"
begin

section \<open>JavaScript values at the wire boundary\<close>

text \<open>
  The adapters of \<^verbatim>\<open>routes/proxy/adapterV2/minimax.ts\<close> (the file holds the MiniMax
  adapter and, from its second import block on, the Mistral adapter) read provider
  payloads whose optional fields may be missing. A missing (\<^verbatim>\<open>undefined\<close>) or
  \<^verbatim>\<open>null\<close> field is \<open>None\<close>. The numbers the adapters compute with are modelled as
  \<open>int\<close> and \<open>nat\<close> (token counts, indices and timestamps are integers), strings as
  \<open>string\<close>.

  A value of type \<^verbatim>\<open>unknown\<close> (what \<^verbatim>\<open>JSON.parse\<close> returns, a tool's parameter schema) is
  a \<open>json\<close>. A number inside such a value is a double; the adapters pass these values
  on and never compute with them, so the type of the numbers is left abstract.
\<close>

typedecl js_number

datatype json =
    JNull
  | JBool bool
  | JNumber js_number
  | JString string
  | JArray "json list"
  | JObject "(string \<times> json) list"

text \<open>The only exception the modelled code can raise: a property written on \<^verbatim>\<open>undefined\<close>.\<close>

datatype error = TypeError

text \<open>\<^verbatim>\<open>if (s)\<close> on an optional string: \<^verbatim>\<open>undefined\<close>, \<^verbatim>\<open>null\<close> and \<^verbatim>\<open>""\<close> are falsy.\<close>

definition truthy :: "string option \<Rightarrow> bool" where
  "truthy s = (case s of None \<Rightarrow> False | Some v \<Rightarrow> v \<noteq> [])"

text \<open>\<^verbatim>\<open>s ?? d\<close>: only \<^verbatim>\<open>undefined\<close> and \<^verbatim>\<open>null\<close> give the default.\<close>

definition nullish :: "'a option \<Rightarrow> 'a \<Rightarrow> 'a" where
  "nullish s d = (case s of None \<Rightarrow> d | Some v \<Rightarrow> v)"

text \<open>\<^verbatim>\<open>s || d\<close> on an optional string: every falsy value gives the default.\<close>

definition falsy_or :: "string option \<Rightarrow> string option \<Rightarrow> string option" where
  "falsy_or s d = (if truthy s then s else d)"

section \<open>Stream chunks and the accumulator state\<close>

text \<open>
  \<^verbatim>\<open>Mistral.Types.ChatCompletionChunk\<close> (types/llm-providers/mistral/index.ts); MiniMax
  uses the OpenAI chunk type of the same shape.
\<close>

record tool_call_function_delta =
  fd_name :: "string option"
  fd_arguments :: "string option"

record tool_call_delta =
  tcd_index :: int
  tcd_id :: "string option"
  tcd_type :: "string option"
  tcd_function :: "tool_call_function_delta option"

record delta =
  delta_role :: "string option"
  delta_content :: "string option"
  delta_tool_calls :: "tool_call_delta list option"

record chunk_choice =
  cc_index :: int
  cc_delta :: delta
  cc_finish_reason :: "string option"

record usage =
  prompt_tokens :: "int option"
  completion_tokens :: "int option"
  total_tokens :: "int option"

record chunk =
  chunk_id :: string
  chunk_object :: string
  chunk_created :: int
  chunk_model :: string
  chunk_choices :: "chunk_choice list"
  chunk_usage :: "usage option"

text \<open>
  \<^verbatim>\<open>StreamAccumulatorState\<close>, as the constructors of both stream adapters build it. The
  field \<^verbatim>\<open>text\<close> is called \<open>stext\<close> here.
\<close>

record UsageView =
  inputTokens :: int
  outputTokens :: int

record AccToolCall =
  acc_id :: string
  acc_name :: string
  acc_arguments :: string

record Timing =
  startTime :: int
  firstChunkTime :: "int option"

record StreamAccumulatorState =
  responseId :: string
  model :: string
  stext :: string
  toolCalls :: "AccToolCall list"
  rawToolCallEvents :: "chunk list"
  usage :: "UsageView option"
  stopReason :: "string option"
  timing :: Timing

text \<open>
  A stream adapter object: its public \<^verbatim>\<open>state\<close> and its private
  \<^verbatim>\<open>currentToolCallIndices\<close>, a \<^verbatim>\<open>Map<number, number>\<close> from the provider's stream index
  to a position in \<^verbatim>\<open>state.toolCalls\<close>.
\<close>

record StreamAdapter =
  state :: StreamAccumulatorState
  currentToolCallIndices :: "int \<rightharpoonup> nat"

record ChunkProcessingResult =
  sseData :: "string option"
  isToolCallChunk :: bool
  isFinal :: bool

text \<open>The constructor; \<open>now\<close> is what \<^verbatim>\<open>Date.now()\<close> returns.\<close>

definition newStreamAdapter :: "int \<Rightarrow> StreamAdapter" where
  "newStreamAdapter now =
     \<lparr>state = \<lparr>responseId = '''', model = '''', stext = '''', toolCalls = [],
                rawToolCallEvents = [], usage = None, stopReason = None,
                timing = \<lparr>startTime = now, firstChunkTime = None\<rparr>\<rparr>,
      currentToolCallIndices = Map.empty\<rparr>"

subsection \<open>The blocks of \<^verbatim>\<open>processChunk\<close>\<close>

text \<open>minimax.ts 567-569 and 1328-1330: the first chunk's arrival time is recorded once.\<close>

definition noteFirstChunk :: "int \<Rightarrow> StreamAccumulatorState \<Rightarrow> StreamAccumulatorState" where
  "noteFirstChunk now st =
     (if firstChunkTime (timing st) = None
      then st\<lparr>timing := (timing st)\<lparr>firstChunkTime := Some now\<rparr>\<rparr>
      else st)"

text \<open>minimax.ts 575-576 and 1336-1337.\<close>

definition refreshIdentity :: "chunk \<Rightarrow> StreamAccumulatorState \<Rightarrow> StreamAccumulatorState" where
  "refreshIdentity c st = st\<lparr>responseId := chunk_id c, model := chunk_model c\<rparr>"

text \<open>minimax.ts 636-641 and 1339-1344: usage is normalised into a \<^verbatim>\<open>UsageView\<close>.\<close>

definition recordUsage :: "chunk \<Rightarrow> StreamAccumulatorState \<Rightarrow> StreamAccumulatorState" where
  "recordUsage c st =
     (case chunk_usage c of
        None \<Rightarrow> st
      | Some u \<Rightarrow> st\<lparr>usage := Some \<lparr>inputTokens = nullish (prompt_tokens u) 0,
                                    outputTokens = nullish (completion_tokens u) 0\<rparr>\<rparr>)"

text \<open>minimax.ts 589-591 and 1357-1358: \<^verbatim>\<open>if (delta.content) state.text += delta.content\<close>.\<close>

definition appendText :: "delta \<Rightarrow> StreamAccumulatorState \<Rightarrow> StreamAccumulatorState" where
  "appendText d st =
     (if truthy (delta_content d) then st\<lparr>stext := stext st @ nullish (delta_content d) ''''\<rparr>
      else st)"

text \<open>\<^verbatim>\<open>toolCallDelta.function?.name\<close> and \<^verbatim>\<open>toolCallDelta.function?.arguments\<close>.\<close>

definition fn_name :: "tool_call_delta \<Rightarrow> string option" where
  "fn_name d = (case tcd_function d of None \<Rightarrow> None | Some f \<Rightarrow> fd_name f)"

definition fn_arguments :: "tool_call_delta \<Rightarrow> string option" where
  "fn_arguments d = (case tcd_function d of None \<Rightarrow> None | Some f \<Rightarrow> fd_arguments f)"

text \<open>
  minimax.ts 616-624 and 1379-1387: the three guarded writes to the slot
  \<^verbatim>\<open>toolCall = state.toolCalls[toolCallIndex]\<close>.
\<close>

definition mergeDelta :: "tool_call_delta \<Rightarrow> AccToolCall \<Rightarrow> AccToolCall" where
  "mergeDelta d tc =
     (let tc1 = (if truthy (tcd_id d) then tc\<lparr>acc_id := nullish (tcd_id d) ''''\<rparr> else tc);
          tc2 = (if truthy (fn_name d) then tc1\<lparr>acc_name := nullish (fn_name d) ''''\<rparr> else tc1)
      in if truthy (fn_arguments d)
         then tc2\<lparr>acc_arguments := acc_arguments tc2 @ nullish (fn_arguments d) ''''\<rparr>
         else tc2)"

text \<open>
  minimax.ts 600-625 and 1363-1388: one iteration of the loop over \<^verbatim>\<open>delta.tool_calls\<close>,
  on the pair of \<^verbatim>\<open>state.toolCalls\<close> and \<^verbatim>\<open>currentToolCallIndices\<close>. Reading
  \<^verbatim>\<open>state.toolCalls[toolCallIndex]\<close> beyond the end gives \<^verbatim>\<open>undefined\<close>, and the first
  guarded write on it throws.
\<close>

definition toolCallLoopBody ::
  "tool_call_delta \<Rightarrow> AccToolCall list \<times> (int \<rightharpoonup> nat)
     \<Rightarrow> error + AccToolCall list \<times> (int \<rightharpoonup> nat)" where
  "toolCallLoopBody d s =
     (let index = tcd_index d;
          tcs = (if snd s index = None
                 then fst s @ [\<lparr>acc_id = nullish (tcd_id d) '''',
                                acc_name = nullish (fn_name d) '''',
                                acc_arguments = ''''\<rparr>]
                 else fst s);
          idx = (if snd s index = None then (snd s)(index \<mapsto> length (fst s)) else snd s)
      in case idx index of
           None \<Rightarrow> Inr (tcs, idx)
         | Some toolCallIndex \<Rightarrow>
             if toolCallIndex < length tcs
             then Inr (tcs[toolCallIndex := mergeDelta d (tcs ! toolCallIndex)], idx)
             else if truthy (tcd_id d) \<or> truthy (fn_name d) \<or> truthy (fn_arguments d)
             then Inl TypeError
             else Inr (tcs, idx))"

fun toolCallLoop ::
  "tool_call_delta list \<Rightarrow> AccToolCall list \<times> (int \<rightharpoonup> nat)
     \<Rightarrow> error + AccToolCall list \<times> (int \<rightharpoonup> nat)" where
  "toolCallLoop [] s = Inr s"
| "toolCallLoop (d # ds) s =
     (case toolCallLoopBody d s of Inl e \<Rightarrow> Inl e | Inr s' \<Rightarrow> toolCallLoop ds s')"

text \<open>
  minimax.ts 599-629 and 1362-1392: \<^verbatim>\<open>if (delta.tool_calls) { loop; push the raw chunk;
  isToolCallChunk = true }\<close>. An array, also an empty one, is truthy. The result carries
  the new value of \<^verbatim>\<open>isToolCallChunk\<close>.
\<close>

definition accumulateToolCalls ::
  "chunk \<Rightarrow> delta \<Rightarrow> StreamAdapter \<Rightarrow> error + bool \<times> StreamAdapter" where
  "accumulateToolCalls c d a =
     (case delta_tool_calls d of
        None \<Rightarrow> Inr (False, a)
      | Some ds \<Rightarrow>
          (case toolCallLoop ds (toolCalls (state a), currentToolCallIndices a) of
             Inl e \<Rightarrow> Inl e
           | Inr s \<Rightarrow>
               Inr (True,
                    \<lparr>state = (state a)\<lparr>toolCalls := fst s,
                                       rawToolCallEvents := rawToolCallEvents (state a) @ [c]\<rparr>,
                     currentToolCallIndices = snd s\<rparr>)))"

text \<open>The frame \<^verbatim>\<open>`data: ${JSON.stringify(chunk)}\n\n`\<close>; \<open>stringify\<close> is \<^verbatim>\<open>JSON.stringify\<close>.\<close>

definition sseFrame :: "(chunk \<Rightarrow> string) \<Rightarrow> chunk \<Rightarrow> string" where
  "sseFrame stringify c = ''data: '' @ stringify c @ [CHR 0x0A, CHR 0x0A]"

subsection \<open>\<^verbatim>\<open>MinimaxStreamAdapter.processChunk\<close> (minimax.ts 566-644)\<close>

definition minimax_processChunk ::
  "(chunk \<Rightarrow> string) \<Rightarrow> int \<Rightarrow> chunk \<Rightarrow> StreamAdapter
     \<Rightarrow> error + ChunkProcessingResult \<times> StreamAdapter" where
  "minimax_processChunk stringify now c a =
     (let a0 = a\<lparr>state := refreshIdentity c (noteFirstChunk now (state a))\<rparr>
      in case chunk_choices c of
           [] \<Rightarrow> Inr (\<lparr>sseData = None, isToolCallChunk = False, isFinal = False\<rparr>, a0)
         | choice # _ \<Rightarrow>
             (let d = cc_delta choice;
                  a1 = a0\<lparr>state := appendText d (state a0)\<rparr>;
                  hasContent = (truthy (delta_content d) \<or> delta_tool_calls d \<noteq> None
                                \<or> truthy (delta_role d));
                  sse = (if hasContent then Some (sseFrame stringify c) else None)
              in case accumulateToolCalls c d a1 of
                   Inl e \<Rightarrow> Inl e
                 | Inr r \<Rightarrow>
                     (let a2 = snd r;
                          fin = truthy (cc_finish_reason choice);
                          st3 = (if fin then (state a2)\<lparr>stopReason := cc_finish_reason choice\<rparr>
                                 else state a2);
                          st4 = recordUsage c st3
                      in Inr (\<lparr>sseData = sse, isToolCallChunk = fst r, isFinal = fin\<rparr>,
                              a2\<lparr>state := st4\<rparr>))))"

subsection \<open>\<^verbatim>\<open>MistralStreamAdapter.processChunk\<close> (minimax.ts 1327-1408)\<close>

definition mistral_processChunk ::
  "(chunk \<Rightarrow> string) \<Rightarrow> int \<Rightarrow> chunk \<Rightarrow> StreamAdapter
     \<Rightarrow> error + ChunkProcessingResult \<times> StreamAdapter" where
  "mistral_processChunk stringify now c a =
     (let a0 = a\<lparr>state := recordUsage c (refreshIdentity c (noteFirstChunk now (state a)))\<rparr>
      in case chunk_choices c of
           [] \<Rightarrow> Inr (\<lparr>sseData = None, isToolCallChunk = False,
                       isFinal = (usage (state a0) \<noteq> None)\<rparr>, a0)
         | choice # _ \<Rightarrow>
             (let d = cc_delta choice;
                  a1 = a0\<lparr>state := appendText d (state a0)\<rparr>;
                  sse = (if truthy (delta_content d) then Some (sseFrame stringify c) else None)
              in case accumulateToolCalls c d a1 of
                   Inl e \<Rightarrow> Inl e
                 | Inr r \<Rightarrow>
                     (let a2 = snd r;
                          st3 = (if truthy (cc_finish_reason choice)
                                 then (state a2)\<lparr>stopReason := cc_finish_reason choice\<rparr>
                                 else state a2)
                      in Inr (\<lparr>sseData = sse, isToolCallChunk = fst r,
                               isFinal = (usage st3 \<noteq> None)\<rparr>,
                              a2\<lparr>state := st3\<rparr>))))"

text \<open>
  Feeding a sequence of chunks, each with its arrival time, to \<^verbatim>\<open>processChunk\<close>; an
  exception ends the run.
\<close>

fun processChunks ::
  "(int \<Rightarrow> chunk \<Rightarrow> StreamAdapter \<Rightarrow> error + ChunkProcessingResult \<times> StreamAdapter)
     \<Rightarrow> (int \<times> chunk) list \<Rightarrow> StreamAdapter \<Rightarrow> error + StreamAdapter" where
  "processChunks step [] a = Inr a"
| "processChunks step (tc # tcs) a =
     (case step (fst tc) (snd tc) a of
        Inl e \<Rightarrow> Inl e
      | Inr r \<Rightarrow> processChunks step tcs (snd r))"

text \<open>
  The two stream adapters of the file, as the factories \<^verbatim>\<open>minimaxAdapterFactory\<close> and
  \<^verbatim>\<open>mistralAdapterFactory\<close> hand them out. (The OpenRouter adapter delegates every call
  to the OpenAI adapter, which is not part of the sources at hand.)
\<close>

datatype provider = Minimax | Mistral

definition processChunk ::
  "provider \<Rightarrow> (chunk \<Rightarrow> string) \<Rightarrow> int \<Rightarrow> chunk \<Rightarrow> StreamAdapter
     \<Rightarrow> error + ChunkProcessingResult \<times> StreamAdapter" where
  "processChunk p = (case p of Minimax \<Rightarrow> minimax_processChunk | Mistral \<Rightarrow> mistral_processChunk)"

section \<open>Provider responses\<close>

text \<open>
  \<^verbatim>\<open>ChatCompletionResponseSchema\<close> and \<^verbatim>\<open>ChoiceSchema\<close> of the MiniMax and Mistral type
  modules. A tool call's \<^verbatim>\<open>type\<close> is the one-valued enum \<^verbatim>\<open>z.enum(["function"])\<close>. A
  choice built by spreading a missing first choice has no \<^verbatim>\<open>index\<close> and no
  \<^verbatim>\<open>logprobs\<close>, hence the options.
\<close>

datatype tool_call_type = Function

record function_call =
  fc_arguments :: string
  fc_name :: string

record tool_call =
  tc_id :: string
  tc_type :: tool_call_type
  tc_function :: function_call

record response_message =
  rm_content :: "string option"
  rm_role :: string
  rm_function_call :: "function_call option"
  rm_tool_calls :: "tool_call list option"

record choice =
  ch_index :: "int option"
  ch_logprobs :: "json option"
  ch_message :: response_message
  ch_finish_reason :: "string option"

record response =
  resp_id :: string
  resp_object :: string
  resp_created :: int
  resp_model :: string
  resp_choices :: "choice list"
  resp_usage :: "usage option"

text \<open>
  \<^verbatim>\<open>toProviderResponse\<close> (minimax.ts 717-755 for MiniMax, 1481-1519 for Mistral: the two
  bodies are the same text). \<open>now\<close> is \<^verbatim>\<open>Date.now()\<close>; \<^verbatim>\<open>state.text || null\<close> turns the
  empty text into \<^verbatim>\<open>null\<close>.
\<close>

definition toProviderResponse :: "int \<Rightarrow> StreamAccumulatorState \<Rightarrow> response" where
  "toProviderResponse now st =
     (let tcalls =
            (if length (toolCalls st) > 0
             then Some (map (\<lambda>tc. \<lparr>tc_id = acc_id tc, tc_type = Function,
                                     tc_function = \<lparr>fc_arguments = acc_arguments tc,
                                                    fc_name = acc_name tc\<rparr>\<rparr>)
                            (toolCalls st))
             else None);
          inTok = (case usage st of None \<Rightarrow> 0 | Some u \<Rightarrow> inputTokens u);
          outTok = (case usage st of None \<Rightarrow> 0 | Some u \<Rightarrow> outputTokens u)
      in \<lparr>resp_id = responseId st,
          resp_object = ''chat.completion'',
          resp_created = now div 1000,
          resp_model = model st,
          resp_choices =
            [\<lparr>ch_index = Some 0,
              ch_logprobs = None,
              ch_message = \<lparr>rm_content = (if stext st = [] then None else Some (stext st)),
                             rm_role = ''assistant'',
                             rm_function_call = None,
                             rm_tool_calls = tcalls\<rparr>,
              ch_finish_reason = Some (nullish (stopReason st) ''stop'')\<rparr>],
          resp_usage = Some \<lparr>prompt_tokens = Some inTok,
                             completion_tokens = Some outTok,
                             total_tokens = Some (inTok + outTok)\<rparr>\<rparr>)"

text \<open>
  \<^verbatim>\<open>toRefusalResponse\<close> (minimax.ts 519-537 for MiniMax, 1279-1298 for Mistral). Spreading
  \<^verbatim>\<open>this.response.choices[0]\<close> copies the first choice's other fields, or nothing when
  there is no first choice; \<^verbatim>\<open>message\<close> and \<^verbatim>\<open>finish_reason\<close> are then set. MiniMax
  builds the message without a \<^verbatim>\<open>tool_calls\<close> property, Mistral with
  \<^verbatim>\<open>tool_calls: undefined\<close>: both are \<open>None\<close> here. The first parameter is unused in both.
\<close>

definition toRefusalResponse :: "provider \<Rightarrow> response \<Rightarrow> string \<Rightarrow> string \<Rightarrow> response" where
  "toRefusalResponse p r refusalMessage contentMessage =
     r\<lparr>resp_choices :=
         [\<lparr>ch_index = (case resp_choices r of [] \<Rightarrow> None | c # _ \<Rightarrow> ch_index c),
           ch_logprobs = (case resp_choices r of [] \<Rightarrow> None | c # _ \<Rightarrow> ch_logprobs c),
           ch_message = \<lparr>rm_content = Some contentMessage,
                          rm_role = ''assistant'',
                          rm_function_call = None,
                          rm_tool_calls = None\<rparr>,
           ch_finish_reason = Some ''stop''\<rparr>]\<rparr>"

text \<open>
  The response adapter's readers used below: \<^verbatim>\<open>getText\<close> (469-473 with \<^verbatim>\<open>??\<close>, 1237-1241
  with \<^verbatim>\<open>||\<close>) and \<^verbatim>\<open>hasToolCalls\<close> (503-506, 1263-1266).
\<close>

definition getText :: "provider \<Rightarrow> response \<Rightarrow> string" where
  "getText p r =
     (case resp_choices r of
        [] \<Rightarrow> ''''
      | c # _ \<Rightarrow>
          (case p of
             Minimax \<Rightarrow> nullish (rm_content (ch_message c)) ''''
           | Mistral \<Rightarrow> nullish (falsy_or (rm_content (ch_message c)) (Some '''')) ''''))"

definition hasToolCalls :: "response \<Rightarrow> bool" where
  "hasToolCalls r =
     (case resp_choices r of
        [] \<Rightarrow> False
      | c # _ \<Rightarrow> length (nullish (rm_tool_calls (ch_message c)) []) > 0)"

section \<open>Requests and the request adapter\<close>

text \<open>
  \<^verbatim>\<open>MessageParamSchema\<close> of types/llm-providers/minimax/messages.ts and
  types/llm-providers/mistral/messages.ts: a message is one of the role-tagged objects.
  Content is a string or an array of parts. The optional \<^verbatim>\<open>name\<close> of a message is the
  last argument where the schema has one; a tool message is
  \<open>ToolMessage content tool_call_id name\<close>.
\<close>

datatype content_part = TextPart string | ImagePart string string

datatype content = Text string | Parts "content_part list"

datatype message =
    DeveloperMessage content "string option"
  | SystemMessage content "string option"
  | UserMessage content "string option"
  | AssistantMessage "content option" "function_call option" "tool_call list option"
      "string option"
  | ToolMessage content string "string option"
  | FunctionMessage "string option" string

fun role :: "message \<Rightarrow> string" where
  "role (DeveloperMessage _ _) = ''developer''"
| "role (SystemMessage _ _) = ''system''"
| "role (UserMessage _ _) = ''user''"
| "role (AssistantMessage _ _ _ _) = ''assistant''"
| "role (ToolMessage _ _ _) = ''tool''"
| "role (FunctionMessage _ _) = ''function''"

record function_definition =
  fdef_name :: string
  fdef_description :: "string option"
  fdef_parameters :: "json option"

record tool =
  tool_type :: tool_call_type
  tool_function :: function_definition

text \<open>
  \<^verbatim>\<open>ChatCompletionRequestSchema\<close>. The fields the adapter never reads (\<^verbatim>\<open>tool_choice\<close>,
  \<^verbatim>\<open>temperature\<close>, \<^verbatim>\<open>max_tokens\<close> and so on) are only copied by \<^verbatim>\<open>...this.request\<close>; they
  are the field \<open>req_rest\<close> of a type the model leaves open. The type of the messages
  is a parameter as well: the request an adapter is built from holds messages of the
  schema, the request that \<^verbatim>\<open>toProviderRequest\<close> builds holds \<open>built_message\<close>s (below).
\<close>

record ('m, 'x) request =
  req_model :: string
  req_messages :: "'m list"
  req_tools :: "tool list option"
  req_stream :: "bool option"
  req_rest :: 'x

text \<open>
  The \<^verbatim>\<open>Record<string, string>\<close> of buffered updates is a plain object, created by the
  literal \<^verbatim>\<open>{}\<close> (minimax.ts 195 and 1007). Its own properties are an association list
  with one entry per key; the adapter reads their number and their values, never their
  order. Besides them the object has
  the properties of \<^verbatim>\<open>Object.prototype\<close>, which are functions, and for \<^verbatim>\<open>__proto__\<close> an
  accessor that gives the prototype itself.
\<close>

type_synonym updates = "(string \<times> string) list"

definition objectPrototypeNames :: "string list" where
  "objectPrototypeNames =
     [''constructor'', ''__proto__'', ''toString'', ''toLocaleString'', ''valueOf'',
      ''hasOwnProperty'', ''isPrototypeOf'', ''propertyIsEnumerable'',
      ''__defineGetter__'', ''__defineSetter__'', ''__lookupGetter__'', ''__lookupSetter__'']"

text \<open>
  \<^verbatim>\<open>obj[key]\<close>: an own property's string, or the value inherited under the name (a function
  or an object, never a string), or \<^verbatim>\<open>undefined\<close>.
\<close>

datatype property = Own string | Inherited | Undefined

definition getProperty :: "updates \<Rightarrow> string \<Rightarrow> property" where
  "getProperty obj key =
     (case map_of obj key of
        Some v \<Rightarrow> Own v
      | None \<Rightarrow> if key \<in> set objectPrototypeNames then Inherited else Undefined)"

text \<open>
  \<^verbatim>\<open>obj[key] = value\<close> with a string value: the setter of \<^verbatim>\<open>__proto__\<close> ignores a value
  that is neither an object nor \<^verbatim>\<open>null\<close>; under any other name the assignment creates
  or overwrites an own property (the inherited ones are writable data properties).
\<close>

definition setProperty :: "string \<Rightarrow> string \<Rightarrow> updates \<Rightarrow> updates" where
  "setProperty key v obj = (if key = ''__proto__'' then obj else AList.update key v obj)"

text \<open>The request adapter object (minimax.ts 192-202 and 1004-1014).\<close>

record 'x RequestAdapter =
  request :: "(message, 'x) request"
  modifiedModel :: "string option"
  toolResultUpdates :: updates

definition newRequestAdapter :: "(message, 'x) request \<Rightarrow> 'x RequestAdapter" where
  "newRequestAdapter r = \<lparr>request = r, modifiedModel = None, toolResultUpdates = []\<rparr>"

text \<open>
  Modelled from the spec: the declarations of the canonical types \<^verbatim>\<open>CommonMessage\<close>,
  \<^verbatim>\<open>CommonToolResult\<close> and \<^verbatim>\<open>CommonMcpToolDefinition\<close> of \<^verbatim>\<open>@/types\<close>, which the
  sources at hand only import. After section 3 (CanonicalMessage): a message has a
  role, a content, and optional \<^verbatim>\<open>toolCalls\<close>, a sequence of
  \<^verbatim>\<open>{id, name, content, isError}\<close>. The object literals of the adapters give the same
  fields for a tool result and a tool definition. An \<^verbatim>\<open>unknown\<close> content is a JSON value;
  a content the code leaves as the raw string is \<open>JString\<close>.
\<close>

record CommonToolResult =
  tr_id :: string
  tr_name :: string
  tr_content :: json
  tr_isError :: bool

record CommonMessage =
  cm_role :: string
  cm_content :: "json option"
  cm_toolCalls :: "CommonToolResult list option"

record CommonMcpToolDefinition =
  td_name :: string
  td_description :: "string option"
  td_inputSchema :: "json option"

subsection \<open>What the adapters call and do not define\<close>

text \<open>
  \<^verbatim>\<open>JSON.parse\<close> (\<open>None\<close> when it throws), \<^verbatim>\<open>JSON.stringify\<close> on a content array, the
  TOON encoder, \<^verbatim>\<open>unwrapToolContent\<close>, and the Mistral tokenizer's \<^verbatim>\<open>countTokens\<close> on a
  single user message. \<open>None\<close> is a call that throws.

  The encoder is the one function \<^verbatim>\<open>encode\<close> of the package \<^verbatim>\<open>@toon-format/toon\<close>, which
  both adapters import as \<^verbatim>\<open>toonEncode\<close> (minimax.ts 1 and 965). It answers the encoded
  text, a string: Mistral's call (1545) makes its answer the content of the message
  and has the tokenizer count it. \<open>toonEncode\<close> is the call with the value alone
  (Mistral), \<open>toonEncodeWith\<close> the call with the options object of MiniMax (936-943),
  given the model whose tokenizer the options carry and their \<^verbatim>\<open>maxTokens\<close>; what the
  function does with the options is left open.
\<close>

record externals =
  JSON_parse :: "string \<Rightarrow> json option"
  JSON_stringify :: "content_part list \<Rightarrow> string"
  toonEncodeWith :: "string \<Rightarrow> nat \<Rightarrow> json \<Rightarrow> string option"
  toonEncode :: "json \<Rightarrow> string option"
  unwrapToolContent :: "string \<Rightarrow> string option"
  countTokens :: "string \<Rightarrow> nat option"

subsection \<open>Read access\<close>

text \<open>minimax.ts 208-210 and 1016-1018.\<close>

definition getModel :: "'x RequestAdapter \<Rightarrow> string" where
  "getModel a = nullish (modifiedModel a) (req_model (request a))"

text \<open>minimax.ts 212-214 and 1020-1022.\<close>

definition isStreaming :: "'x RequestAdapter \<Rightarrow> bool" where
  "isStreaming a = (req_stream (request a) = Some True)"

text \<open>
  \<^verbatim>\<open>findToolNameInMessages\<close>: the inner loop over one assistant message's tool calls.
  MiniMax (342-348) returns a matching call's name only when its type is
  \<^verbatim>\<open>"function"\<close> and goes on otherwise; Mistral (1141-1145) returns it at once.
\<close>

fun findInToolCalls :: "provider \<Rightarrow> tool_call list \<Rightarrow> string \<Rightarrow> string option" where
  "findInToolCalls p [] toolCallId = None"
| "findInToolCalls p (toolCall # rest) toolCallId =
     (if tc_id toolCall = toolCallId
      then (case p of
              Minimax \<Rightarrow>
                (if tc_type toolCall = Function then Some (fc_name (tc_function toolCall))
                 else findInToolCalls p rest toolCallId)
            | Mistral \<Rightarrow> Some (fc_name (tc_function toolCall)))
      else findInToolCalls p rest toolCallId)"

text \<open>
  The body of the outer loop for one message: \<^verbatim>\<open>message.role === "assistant" &&
  message.tool_calls\<close> (an array is truthy).
\<close>

fun findInMessage :: "provider \<Rightarrow> message \<Rightarrow> string \<Rightarrow> string option" where
  "findInMessage p (AssistantMessage _ _ (Some tcs) _) toolCallId = findInToolCalls p tcs toolCallId"
| "findInMessage p _ toolCallId = None"

text \<open>
  The outer loop \<^verbatim>\<open>for (let i = messages.length - 1; i >= 0; i--)\<close> (338-350, 1137-1147):
  \<open>scanBackFrom (Suc i)\<close> is the loop about to look at index \<open>i\<close>.
\<close>

fun scanBackFrom :: "provider \<Rightarrow> nat \<Rightarrow> message list \<Rightarrow> string \<Rightarrow> string option" where
  "scanBackFrom p 0 messages toolCallId = None"
| "scanBackFrom p (Suc i) messages toolCallId =
     (case findInMessage p (messages ! i) toolCallId of
        Some n \<Rightarrow> Some n
      | None \<Rightarrow> scanBackFrom p i messages toolCallId)"

definition findToolNameInMessages ::
  "provider \<Rightarrow> message list \<Rightarrow> string \<Rightarrow> string option" where
  "findToolNameInMessages p messages toolCallId =
     scanBackFrom p (length messages) messages toolCallId"

text \<open>
  The parse-with-fallback of a tool message's content (230-239, 378-387, 1038-1047,
  1167-1176): a string is parsed and kept raw when \<^verbatim>\<open>JSON.parse\<close> throws, an array of
  parts is taken as it is.
\<close>

fun partJson :: "content_part \<Rightarrow> json" where
  "partJson (TextPart t) = JObject [(''type'', JString ''text''), (''text'', JString t)]"
| "partJson (ImagePart url detail) =
     JObject [(''type'', JString ''image_url''),
              (''image_url'', JObject [(''url'', JString url), (''detail'', JString detail)])]"

fun parseToolContent :: "externals \<Rightarrow> content \<Rightarrow> json" where
  "parseToolContent ext (Text s) =
     (case JSON_parse ext s of Some v \<Rightarrow> v | None \<Rightarrow> JString s)"
| "parseToolContent ext (Parts ps) = JArray (map partJson ps)"

text \<open>\<^verbatim>\<open>getToolResults\<close> (220-251, 1028-1059): one result per tool message, in order.\<close>

fun toolResultOf :: "provider \<Rightarrow> externals \<Rightarrow> message list \<Rightarrow> message \<Rightarrow> CommonToolResult list" where
  "toolResultOf p ext messages (ToolMessage c tool_call_id _) =
     [\<lparr>tr_id = tool_call_id,
       tr_name = nullish (findToolNameInMessages p messages tool_call_id) ''unknown'',
       tr_content = parseToolContent ext c,
       tr_isError = False\<rparr>]"
| "toolResultOf p ext messages _ = []"

definition getToolResults :: "provider \<Rightarrow> externals \<Rightarrow> 'x RequestAdapter \<Rightarrow> CommonToolResult list" where
  "getToolResults p ext a =
     concat (map (toolResultOf p ext (req_messages (request a))) (req_messages (request a)))"

text \<open>
  \<^verbatim>\<open>toCommonFormat\<close> (355-408, 1152-1193): every message gives an object with its role;
  a tool message whose tool name is found and truthy also gets \<^verbatim>\<open>toolCalls\<close>. Nothing
  else is ever set on the object.
\<close>

fun toCommonMessage :: "provider \<Rightarrow> externals \<Rightarrow> message list \<Rightarrow> message \<Rightarrow> CommonMessage" where
  "toCommonMessage p ext messages (ToolMessage c tool_call_id n) =
     (if truthy (findToolNameInMessages p messages tool_call_id)
      then \<lparr>cm_role = role (ToolMessage c tool_call_id n),
            cm_content = None,
            cm_toolCalls =
              Some [\<lparr>tr_id = tool_call_id,
                     tr_name = nullish (findToolNameInMessages p messages tool_call_id) '''',
                     tr_content = parseToolContent ext c,
                     tr_isError = False\<rparr>]\<rparr>
      else \<lparr>cm_role = role (ToolMessage c tool_call_id n), cm_content = None,
            cm_toolCalls = None\<rparr>)"
| "toCommonMessage p ext messages m = \<lparr>cm_role = role m, cm_content = None, cm_toolCalls = None\<rparr>"

definition toCommonFormat :: "provider \<Rightarrow> externals \<Rightarrow> message list \<Rightarrow> CommonMessage list" where
  "toCommonFormat p ext messages = map (toCommonMessage p ext messages) messages"

definition getMessages :: "provider \<Rightarrow> externals \<Rightarrow> 'x RequestAdapter \<Rightarrow> CommonMessage list" where
  "getMessages p ext a = toCommonFormat p ext (req_messages (request a))"

text \<open>\<^verbatim>\<open>getTools\<close> (253-267, 1061-1075) and \<^verbatim>\<open>hasTools\<close> (269-271, 1077-1079).\<close>

definition getTools :: "'x RequestAdapter \<Rightarrow> CommonMcpToolDefinition list" where
  "getTools a =
     (case req_tools (request a) of
        None \<Rightarrow> []
      | Some ts \<Rightarrow>
          map (\<lambda>t. \<lparr>td_name = fdef_name (tool_function t),
                     td_description = fdef_description (tool_function t),
                     td_inputSchema = fdef_parameters (tool_function t)\<rparr>)
              (filter (\<lambda>t. tool_type t = Function) ts))"

definition hasTools :: "'x RequestAdapter \<Rightarrow> bool" where
  "hasTools a = (length (nullish (req_tools (request a)) []) > 0)"

text \<open>minimax.ts 273-279 and 1081-1087.\<close>

definition getProviderMessages :: "'x RequestAdapter \<Rightarrow> message list" where
  "getProviderMessages a = req_messages (request a)"

definition getOriginalRequest :: "'x RequestAdapter \<Rightarrow> (message, 'x) request" where
  "getOriginalRequest a = request a"

subsection \<open>Building the provider request\<close>

text \<open>
  A message of the request that \<^verbatim>\<open>toProviderRequest\<close> returns: a message of the schema,
  or a tool message whose content is the value that \<^verbatim>\<open>Object.prototype\<close> holds under a
  name. The declared type has no such content; at run time \<^verbatim>\<open>updates[id]\<close> gives it when
  the id is one of \<open>objectPrototypeNames\<close> and no update was recorded under it.
  \<open>ToolWithInherited name tool_call_id n\<close> is that message.
\<close>

datatype built_message =
    Typed message
  | ToolWithInherited string string "string option"

text \<open>
  \<^verbatim>\<open>applyUpdates\<close> (410-446, 1195-1214): a tool message for which \<^verbatim>\<open>updates[id]\<close> is truthy
  gets that value as its content. An own empty string is falsy; an inherited value is
  truthy. \<^verbatim>\<open>Object.keys\<close> lists the own properties.
\<close>

fun applyUpdate :: "updates \<Rightarrow> message \<Rightarrow> built_message" where
  "applyUpdate updates (ToolMessage c tool_call_id n) =
     (case getProperty updates tool_call_id of
        Own v \<Rightarrow>
          (if v \<noteq> '''' then Typed (ToolMessage (Text v) tool_call_id n)
           else Typed (ToolMessage c tool_call_id n))
      | Inherited \<Rightarrow> ToolWithInherited tool_call_id tool_call_id n
      | Undefined \<Rightarrow> Typed (ToolMessage c tool_call_id n))"
| "applyUpdate updates m = Typed m"

definition applyUpdates :: "message list \<Rightarrow> updates \<Rightarrow> built_message list" where
  "applyUpdates messages updates =
     (if length updates = 0 then map Typed messages else map (applyUpdate updates) messages)"

text \<open>
  \<^verbatim>\<open>toProviderRequest\<close> (316-328, 1119-1131). The object literal copies every field of
  \<^verbatim>\<open>this.request\<close> and then sets \<^verbatim>\<open>model\<close> and \<^verbatim>\<open>messages\<close>.
\<close>

definition toProviderRequest :: "'x RequestAdapter \<Rightarrow> (built_message, 'x) request" where
  "toProviderRequest a =
     (let messages = (if length (toolResultUpdates a) > 0
                      then applyUpdates (req_messages (request a)) (toolResultUpdates a)
                      else map Typed (req_messages (request a)))
      in \<lparr>req_model = getModel a,
          req_messages = messages,
          req_tools = req_tools (request a),
          req_stream = req_stream (request a),
          req_rest = req_rest (request a)\<rparr>)"

subsection \<open>Modify access\<close>

text \<open>
  minimax.ts 285-295 and 1089-1099. \<^verbatim>\<open>Object.assign\<close> reads the own properties of its
  second argument in their order and assigns each to the first, as \<^verbatim>\<open>obj[key] = value\<close>
  does.
\<close>

definition setModel :: "string \<Rightarrow> 'x RequestAdapter \<Rightarrow> 'x RequestAdapter" where
  "setModel m a = a\<lparr>modifiedModel := Some m\<rparr>"

definition updateToolResult :: "string \<Rightarrow> string \<Rightarrow> 'x RequestAdapter \<Rightarrow> 'x RequestAdapter" where
  "updateToolResult toolCallId newContent a =
     a\<lparr>toolResultUpdates := setProperty toolCallId newContent (toolResultUpdates a)\<rparr>"

definition applyToolResultUpdates :: "updates \<Rightarrow> 'x RequestAdapter \<Rightarrow> 'x RequestAdapter" where
  "applyToolResultUpdates updates a =
     a\<lparr>toolResultUpdates :=
         fold (\<lambda>kv obj. setProperty (fst kv) (snd kv) obj) updates (toolResultUpdates a)\<rparr>"

subsection \<open>TOON compression of tool results\<close>

record ToolCompressionStats =
  originalBytes :: nat
  compressedBytes :: nat
  removedBytes :: nat
  compressedCount :: nat
  removedCount :: nat

text \<open>
  MiniMax, \<^verbatim>\<open>convertToolResultsToToon\<close> (minimax.ts 909-963).
  \<open>originalContentOf\<close> is lines 927-930; \<open>minimax_tryCompress\<close> is the \<^verbatim>\<open>try\<close> block
  934-955, with \<open>Some\<close> for the \<^verbatim>\<open>return\<close> inside \<^verbatim>\<open>if (wasCompressed)\<close> and \<open>None\<close> when
  the block is left without it (a throw that is caught, or \<^verbatim>\<open>wasCompressed\<close> falsy).

  The block awaits the encoder's answer and reads its properties \<^verbatim>\<open>content\<close> and
  \<^verbatim>\<open>wasCompressed\<close> (936). The answer is a string, and a string has neither property:
  \<open>answerContent\<close> and \<open>answerWasCompressed\<close> are the two reads, both \<^verbatim>\<open>undefined\<close>. So the
  block never reaches its \<^verbatim>\<open>return\<close>; no token count is compared in it.
\<close>

fun originalContentOf :: "externals \<Rightarrow> content \<Rightarrow> string" where
  "originalContentOf ext (Text s) = s"
| "originalContentOf ext (Parts ps) = JSON_stringify ext ps"

definition answerContent :: "string \<Rightarrow> string option" where
  "answerContent answer = None"

definition answerWasCompressed :: "string \<Rightarrow> bool option" where
  "answerWasCompressed answer = None"

definition minimax_tryCompress :: "externals \<Rightarrow> string \<Rightarrow> string \<Rightarrow> string option" where
  "minimax_tryCompress ext modelName originalContent =
     (case JSON_parse ext originalContent of
        None \<Rightarrow> None
      | Some parsedContent \<Rightarrow>
          (case toonEncodeWith ext modelName 4000 parsedContent of
             None \<Rightarrow> None
           | Some answer \<Rightarrow>
               (let compressedContent = answerContent answer;
                    wasCompressed = answerWasCompressed answer
                in if wasCompressed = Some True then compressedContent else None)))"

fun minimax_toonMessage :: "externals \<Rightarrow> string \<Rightarrow> message \<Rightarrow> message" where
  "minimax_toonMessage ext modelName (ToolMessage c tool_call_id n) =
     (case minimax_tryCompress ext modelName (originalContentOf ext c) of
        Some compressedContent \<Rightarrow> ToolMessage (Text compressedContent) tool_call_id n
      | None \<Rightarrow> ToolMessage c tool_call_id n)"
| "minimax_toonMessage ext modelName m = m"

text \<open>
  The counters. The callbacks of \<^verbatim>\<open>Promise.all(messages.map(async ...))\<close> only add to
  them, so the order in which the callbacks resume does not show in the sums.
\<close>

fun minimax_toonStats ::
  "externals \<Rightarrow> string \<Rightarrow> message \<Rightarrow> ToolCompressionStats \<Rightarrow> ToolCompressionStats" where
  "minimax_toonStats ext modelName (ToolMessage c tool_call_id n) stats =
     (let originalContent = originalContentOf ext c;
          stats1 = stats\<lparr>originalBytes := originalBytes stats + length originalContent\<rparr>
      in case minimax_tryCompress ext modelName originalContent of
           Some compressedContent \<Rightarrow>
             stats1\<lparr>compressedCount := compressedCount stats1 + 1,
                    compressedBytes := compressedBytes stats1 + length compressedContent\<rparr>
         | None \<Rightarrow>
             stats1\<lparr>compressedBytes := compressedBytes stats1 + length originalContent\<rparr>)"
| "minimax_toonStats ext modelName m stats = stats"

definition minimax_convertToolResultsToToon ::
  "externals \<Rightarrow> message list \<Rightarrow> string \<Rightarrow> message list \<times> ToolCompressionStats" where
  "minimax_convertToolResultsToToon ext messages modelName =
     (map (minimax_toonMessage ext modelName) messages,
      fold (minimax_toonStats ext modelName) messages
        \<lparr>originalBytes = 0, compressedBytes = 0, removedBytes = 0, compressedCount = 0,
         removedCount = 0\<rparr>)"

text \<open>
  Mistral, \<^verbatim>\<open>convertToolResultsToToon\<close> (minimax.ts 1526-1592).
  \<open>mistral_tryCompress\<close> is the \<^verbatim>\<open>try\<close> block 1541-1564 on a string content: the
  compressed content with the two token counts, or \<open>None\<close> when a call in it throws.
  No branch of the block compares the counts. The price lookup and the floating-point
  \<^verbatim>\<open>toonCostSavings\<close> (1571-1582) are left out.
\<close>

definition mistral_tryCompress :: "externals \<Rightarrow> string \<Rightarrow> (string \<times> nat \<times> nat) option" where
  "mistral_tryCompress ext s =
     (case unwrapToolContent ext s of
        None \<Rightarrow> None
      | Some unwrapped \<Rightarrow>
          (case JSON_parse ext unwrapped of
             None \<Rightarrow> None
           | Some parsed \<Rightarrow>
               (case toonEncode ext parsed of
                  None \<Rightarrow> None
                | Some compressed \<Rightarrow>
                    (case countTokens ext unwrapped of
                       None \<Rightarrow> None
                     | Some tokensBefore \<Rightarrow>
                         (case countTokens ext compressed of
                            None \<Rightarrow> None
                          | Some tokensAfter \<Rightarrow>
                              Some (compressed, tokensBefore, tokensAfter))))))"

fun mistral_toonMessage :: "externals \<Rightarrow> message \<Rightarrow> message" where
  "mistral_toonMessage ext (ToolMessage (Text s) tool_call_id n) =
     (case mistral_tryCompress ext s of
        Some r \<Rightarrow> ToolMessage (Text (fst r)) tool_call_id n
      | None \<Rightarrow> ToolMessage (Text s) tool_call_id n)"
| "mistral_toonMessage ext m = m"

record CompressionStats =
  toonTokensBefore :: "nat option"
  toonTokensAfter :: "nat option"

text \<open>The triple is \<^verbatim>\<open>toolResultCount\<close>, \<^verbatim>\<open>totalTokensBefore\<close>, \<^verbatim>\<open>totalTokensAfter\<close>.\<close>

fun mistral_toonCounts :: "externals \<Rightarrow> message \<Rightarrow> nat \<times> nat \<times> nat \<Rightarrow> nat \<times> nat \<times> nat" where
  "mistral_toonCounts ext (ToolMessage (Text s) tool_call_id n) t =
     (case mistral_tryCompress ext s of
        Some r \<Rightarrow> (fst t + 1, fst (snd t) + fst (snd r), snd (snd t) + snd (snd r))
      | None \<Rightarrow> t)"
| "mistral_toonCounts ext m t = t"

definition mistral_convertToolResultsToToon ::
  "externals \<Rightarrow> message list \<Rightarrow> string \<Rightarrow> message list \<times> CompressionStats" where
  "mistral_convertToolResultsToToon ext messages modelName =
     (let t = fold (mistral_toonCounts ext) messages (0, 0, 0)
      in (map (mistral_toonMessage ext) messages,
          \<lparr>toonTokensBefore = (if fst t > 0 then Some (fst (snd t)) else None),
           toonTokensAfter = (if fst t > 0 then Some (snd (snd t)) else None)\<rparr>))"

text \<open>
  \<^verbatim>\<open>applyToonCompression\<close> (302-310, 1101-1113): the request's messages are replaced by
  the converted ones. The adapters return different statistics; the state after the
  call is what the model keeps.
\<close>

definition applyToonCompression ::
  "provider \<Rightarrow> externals \<Rightarrow> string \<Rightarrow> 'x RequestAdapter \<Rightarrow> 'x RequestAdapter" where
  "applyToonCompression p ext modelName a =
     a\<lparr>request := (request a)\<lparr>req_messages :=
         (case p of
            Minimax \<Rightarrow> fst (minimax_convertToolResultsToToon ext (req_messages (request a)) modelName)
          | Mistral \<Rightarrow> fst (mistral_convertToolResultsToToon ext (req_messages (request a)) modelName))\<rparr>\<rparr>"

subsection \<open>Calls on a request adapter\<close>

text \<open>
  The methods of the two request adapter classes. \<open>adapterAfter\<close> gives the adapter's
  fields after a call: the four methods that assign to \<^verbatim>\<open>this.modifiedModel\<close>,
  \<^verbatim>\<open>this.toolResultUpdates\<close> or \<^verbatim>\<open>this.request\<close> change them as defined above; the body
  of every other method has no assignment to a field of \<^verbatim>\<open>this\<close> (logging aside).
\<close>

datatype call =
    GetModel
  | IsStreaming
  | GetMessages
  | GetToolResults
  | GetTools
  | HasTools
  | GetProviderMessages
  | GetOriginalRequest
  | ConvertToolResultContent "message list"
  | ToProviderRequest
  | SetModel string
  | UpdateToolResult string string
  | ApplyToolResultUpdates updates
  | ApplyToonCompression string

fun adapterAfter :: "provider \<Rightarrow> externals \<Rightarrow> call \<Rightarrow> 'x RequestAdapter \<Rightarrow> 'x RequestAdapter" where
  "adapterAfter p ext (SetModel m) a = setModel m a"
| "adapterAfter p ext (UpdateToolResult toolCallId newContent) a =
     updateToolResult toolCallId newContent a"
| "adapterAfter p ext (ApplyToolResultUpdates updates) a = applyToolResultUpdates updates a"
| "adapterAfter p ext (ApplyToonCompression m) a = applyToonCompression p ext m a"
| "adapterAfter p ext _ a = a"

fun isMutation :: "call \<Rightarrow> bool" where
  "isMutation (SetModel _) = True"
| "isMutation (UpdateToolResult _ _) = True"
| "isMutation (ApplyToolResultUpdates _) = True"
| "isMutation (ApplyToonCompression _) = True"
| "isMutation _ = False"

section \<open>What a stream says, chunk by chunk\<close>

text \<open>
  The notions the statements about \<^verbatim>\<open>processChunk\<close> are written in. Only the first
  choice of a chunk is read by the adapters, so the tool-call fragments of a chunk are
  those of its first choice, and the fragments of a stream are those of its chunks in
  arrival order.
\<close>

definition firstChoiceDeltas :: "chunk \<Rightarrow> tool_call_delta list" where
  "firstChoiceDeltas c =
     (case chunk_choices c of
        [] \<Rightarrow> []
      | choice # _ \<Rightarrow> nullish (delta_tool_calls (cc_delta choice)) [])"

definition streamDeltas :: "(int \<times> chunk) list \<Rightarrow> tool_call_delta list" where
  "streamDeltas cs = concat (map (\<lambda>tc. firstChoiceDeltas (snd tc)) cs)"

text \<open>The stream indices in the order of their first mention.\<close>

fun firstMentions :: "int list \<Rightarrow> int list" where
  "firstMentions [] = []"
| "firstMentions (i # is) = i # filter (\<lambda>j. j \<noteq> i) (firstMentions is)"

text \<open>The position of an index in that order.\<close>

fun slotIndex :: "int list \<Rightarrow> int \<Rightarrow> nat option" where
  "slotIndex [] i = None"
| "slotIndex (j # js) i = (if j = i then Some 0 else map_option Suc (slotIndex js i))"

text \<open>Overwrite-if-present: the last value that was carried (truthy), or the empty seed.\<close>

definition lastCarried :: "string option list \<Rightarrow> string" where
  "lastCarried vs =
     (if filter truthy vs = [] then '''' else nullish (last (filter truthy vs)) '''')"

text \<open>The fragments of one stream index, in arrival order, and the slot they add up to.\<close>

definition deltasOf :: "int \<Rightarrow> tool_call_delta list \<Rightarrow> tool_call_delta list" where
  "deltasOf i ds = filter (\<lambda>d. tcd_index d = i) ds"

definition argumentFragments :: "int \<Rightarrow> tool_call_delta list \<Rightarrow> string list" where
  "argumentFragments i ds = map (\<lambda>d. nullish (fn_arguments d) '''') (deltasOf i ds)"

definition slotFor :: "tool_call_delta list \<Rightarrow> int \<Rightarrow> AccToolCall" where
  "slotFor ds i =
     \<lparr>acc_id = lastCarried (map tcd_id (deltasOf i ds)),
      acc_name = lastCarried (map fn_name (deltasOf i ds)),
      acc_arguments = concat (argumentFragments i ds)\<rparr>"

definition expectedToolCalls :: "tool_call_delta list \<Rightarrow> AccToolCall list" where
  "expectedToolCalls ds = map (slotFor ds) (firstMentions (map tcd_index ds))"

definition expectedIndices :: "tool_call_delta list \<Rightarrow> int \<rightharpoonup> nat" where
  "expectedIndices ds = slotIndex (firstMentions (map tcd_index ds))"

text \<open>
  The pair of \<^verbatim>\<open>state.toolCalls\<close> and \<^verbatim>\<open>currentToolCallIndices\<close> is what the fragments
  \<open>ds\<close> seen so far add up to.
\<close>

definition tracks :: "tool_call_delta list \<Rightarrow> AccToolCall list \<times> (int \<rightharpoonup> nat) \<Rightarrow> bool" where
  "tracks ds s = (fst s = expectedToolCalls ds \<and> snd s = expectedIndices ds)"

text \<open>
  The text a chunk adds, the finish reason it carries, and the stop reason after it
  when the stop reason before it was \<open>r\<close>.
\<close>

definition chunkText :: "chunk \<Rightarrow> string" where
  "chunkText c =
     (case chunk_choices c of
        [] \<Rightarrow> ''''
      | choice # _ \<Rightarrow>
          (if truthy (delta_content (cc_delta choice))
           then nullish (delta_content (cc_delta choice)) '''' else ''''))"

definition chunkFinish :: "chunk \<Rightarrow> string option" where
  "chunkFinish c =
     (case chunk_choices c of [] \<Rightarrow> None | choice # _ \<Rightarrow> cc_finish_reason choice)"

definition stopAfter :: "chunk \<Rightarrow> string option \<Rightarrow> string option" where
  "stopAfter c r = (if truthy (chunkFinish c) then chunkFinish c else r)"

section \<open>Example inputs\<close>

text \<open>
  Chunks of the shapes the providers send, for the worked examples below. \<open>stubStringify\<close>
  stands in for \<^verbatim>\<open>JSON.stringify\<close>, which no statement below depends on.
\<close>

definition stubStringify :: "chunk \<Rightarrow> string" where
  "stubStringify c = chunk_id c"

definition emptyChunk :: chunk where
  "emptyChunk = \<lparr>chunk_id = ''r1'', chunk_object = ''chat.completion.chunk'', chunk_created = 0,
                  chunk_model = ''m'', chunk_choices = [], chunk_usage = None\<rparr>"

definition usageChunk :: chunk where
  "usageChunk = emptyChunk\<lparr>chunk_usage :=
     Some \<lparr>prompt_tokens = Some 3, completion_tokens = Some 4, total_tokens = Some 7\<rparr>\<rparr>"

definition deltaChunk :: "delta \<Rightarrow> string option \<Rightarrow> chunk" where
  "deltaChunk d fin =
     emptyChunk\<lparr>chunk_choices := [\<lparr>cc_index = 0, cc_delta = d, cc_finish_reason = fin\<rparr>]\<rparr>"

definition noDelta :: delta where
  "noDelta = \<lparr>delta_role = None, delta_content = None, delta_tool_calls = None\<rparr>"

definition textDelta :: "string \<Rightarrow> delta" where
  "textDelta s = \<lparr>delta_role = None, delta_content = Some s, delta_tool_calls = None\<rparr>"

definition toolDelta :: "int \<Rightarrow> string option \<Rightarrow> string option \<Rightarrow> string option \<Rightarrow> delta" where
  "toolDelta i callId name args =
     \<lparr>delta_role = None, delta_content = None,
      delta_tool_calls =
        Some [\<lparr>tcd_index = i, tcd_id = callId, tcd_type = Some ''function'',
               tcd_function = Some \<lparr>fd_name = name, fd_arguments = args\<rparr>\<rparr>]\<rparr>"

text \<open>
  A stream that opens two tool calls, with the stream indices 1 and 0 in this order,
  and delivers the arguments of the first in two fragments around a fragment of the
  second; then text, and a final chunk.
\<close>

definition exampleStream :: "(int \<times> chunk) list" where
  "exampleStream =
     [(1, deltaChunk (toolDelta 1 (Some ''call_a'') (Some ''read_file'') (Some ''{'')) None),
      (2, deltaChunk (toolDelta 0 (Some ''call_b'') (Some ''list_dir'') None) None),
      (3, deltaChunk (toolDelta 1 None None (Some ''}'')) None),
      (4, deltaChunk (toolDelta 0 None (Some '''') (Some ''[]'')) None),
      (5, deltaChunk (textDelta ''Hello'') None),
      (6, deltaChunk noDelta (Some ''tool_calls''))]"

text \<open>The adapter states met in the worked examples.\<close>

definition adapterWith :: "string option \<Rightarrow> UsageView option \<Rightarrow> int \<Rightarrow> StreamAdapter" where
  "adapterWith stop use firstAt =
     \<lparr>state = \<lparr>responseId = ''r1'', model = ''m'', stext = '''', toolCalls = [],
                rawToolCallEvents = [], usage = use, stopReason = stop,
                timing = \<lparr>startTime = 0, firstChunkTime = Some firstAt\<rparr>\<rparr>,
      currentToolCallIndices = Map.empty\<rparr>"

section \<open>What the request adapter's correlation says\<close>

text \<open>
  The spec's words for naming a tool result: scan backward through the message list
  for the most recent assistant message whose tool-call list contains a tool call
  with a matching id. \<open>matchingCall\<close> is the first tool call of a message with the id,
  \<open>mostRecentMatch\<close> the name of that call in the last such message of the list.
\<close>

fun matchingCall :: "string \<Rightarrow> message \<Rightarrow> tool_call option" where
  "matchingCall toolCallId (AssistantMessage _ _ (Some tcs) _) =
     find (\<lambda>tc. tc_id tc = toolCallId) tcs"
| "matchingCall toolCallId _ = None"

definition mostRecentMatch :: "message list \<Rightarrow> string \<Rightarrow> string option" where
  "mostRecentMatch messages toolCallId =
     (case find (\<lambda>m. matchingCall toolCallId m \<noteq> None) (rev messages) of
        None \<Rightarrow> None
      | Some m \<Rightarrow> map_option (\<lambda>tc. fc_name (tc_function tc)) (matchingCall toolCallId m))"

text \<open>No assistant message of the list has a tool call with the id.\<close>

definition unmatched :: "message list \<Rightarrow> string \<Rightarrow> bool" where
  "unmatched messages toolCallId = list_all (\<lambda>m. matchingCall toolCallId m = None) messages"

text \<open>The tool messages of a list, in order, each as its content and its id.\<close>

fun toolMessagesOf :: "message list \<Rightarrow> (content \<times> string) list" where
  "toolMessagesOf [] = []"
| "toolMessagesOf (ToolMessage c tool_call_id n # ms) = (c, tool_call_id) # toolMessagesOf ms"
| "toolMessagesOf (m # ms) = toolMessagesOf ms"

section \<open>Example requests\<close>

text \<open>
  A conversation with one tool call, its result, and a tool result whose id no
  assistant message mentions. \<open>stubExternals\<close> stands in for the functions the adapters
  call: it parses and encodes the empty array only (TOON writes it \<^verbatim>\<open>[0]:\<close>), and counts
  one token per character.
\<close>

definition exampleMessages :: "message list" where
  "exampleMessages =
     [UserMessage (Text ''list the files'') None,
      AssistantMessage None None
        (Some [\<lparr>tc_id = ''call_a'', tc_type = Function,
                tc_function = \<lparr>fc_arguments = ''{}'', fc_name = ''list_dir''\<rparr>\<rparr>]) None,
      ToolMessage (Text ''[]'') ''call_a'' None,
      ToolMessage (Text ''not json'') ''call_zz'' None]"

definition exampleRequest :: "(message, unit) request" where
  "exampleRequest =
     \<lparr>req_model = ''m1'', req_messages = exampleMessages, req_tools = None,
      req_stream = None, req_rest = ()\<rparr>"

definition stubExternals :: externals where
  "stubExternals =
     \<lparr>JSON_parse = (\<lambda>s. if s = ''[]'' then Some (JArray []) else None),
      JSON_stringify = (\<lambda>ps. ''[]''),
      toonEncodeWith = (\<lambda>m budget v. if v = JArray [] then Some ''[0]:'' else None),
      toonEncode = (\<lambda>v. if v = JArray [] then Some ''[0]:'' else None),
      unwrapToolContent = (\<lambda>s. Some s),
      countTokens = (\<lambda>s. Some (length s))\<rparr>"

text \<open>The request's messages after \<^verbatim>\<open>applyToonCompression\<close>.\<close>

abbreviation messagesAfterToon ::
  "provider \<Rightarrow> externals \<Rightarrow> string \<Rightarrow> 'x RequestAdapter \<Rightarrow> message list" where
  "messagesAfterToon p ext modelName a \<equiv>
     req_messages (request (applyToonCompression p ext modelName a))"

section \<open>The stream adapters: accumulation of tool calls\<close>

lemma falsy_nullish: "\<not> truthy v \<Longrightarrow> nullish v '''' = ''''"
  by (auto simp: truthy_def nullish_def split: option.splits)

lemma set_firstMentions: "set (firstMentions xs) = set xs"
  by (induction xs) auto

lemma distinct_firstMentions: "distinct (firstMentions xs)"
  by (induction xs) auto

lemma firstMentions_snoc:
  "firstMentions (xs @ [x]) = (if x \<in> set xs then firstMentions xs else firstMentions xs @ [x])"
  by (induction xs) auto

lemma slotIndex_None: "slotIndex js i = None \<longleftrightarrow> i \<notin> set js"
  by (induction js) auto

lemma slotIndex_Some: "slotIndex js i = Some k \<Longrightarrow> k < length js \<and> js ! k = i"
  by (induction js arbitrary: k) (auto split: if_splits)

lemma slotIndex_snoc:
  "i \<notin> set js \<Longrightarrow> slotIndex (js @ [i]) = (slotIndex js)(i \<mapsto> length js)"
  by (induction js) (auto simp: fun_eq_iff)

lemma lastCarried_snoc:
  "lastCarried (vs @ [v]) = (if truthy v then nullish v '''' else lastCarried vs)"
  by (simp add: lastCarried_def)

lemma slotFor_snoc:
  "slotFor (ds @ [d]) i = (if tcd_index d = i then mergeDelta d (slotFor ds i) else slotFor ds i)"
  by (simp add: slotFor_def argumentFragments_def deltasOf_def mergeDelta_def lastCarried_snoc
      Let_def falsy_nullish)

lemma slotFor_fresh:
  assumes "i \<notin> tcd_index ` set ds"
  shows "slotFor ds i = \<lparr>acc_id = '''', acc_name = '''', acc_arguments = ''''\<rparr>"
proof -
  from assms have "deltasOf i ds = []"
    by (auto simp: deltasOf_def filter_empty_conv)
  then show ?thesis
    by (simp add: slotFor_def argumentFragments_def lastCarried_def)
qed

lemma mergeDelta_seed:
  "mergeDelta d \<lparr>acc_id = nullish (tcd_id d) '''', acc_name = nullish (fn_name d) '''',
                 acc_arguments = ''''\<rparr>
   = mergeDelta d \<lparr>acc_id = '''', acc_name = '''', acc_arguments = ''''\<rparr>"
  by (auto simp: mergeDelta_def truthy_def nullish_def Let_def split: option.splits)

lemma snoc_update_last:
  "n = length xs \<Longrightarrow> (xs @ [y])[n := f ((xs @ [y]) ! n)] = xs @ [f y]"
  by simp

text \<open>
  One iteration of the loop: on a pair that tracks the fragments seen so far it does
  not throw, and the pair it leaves tracks one fragment more. A known index merges
  into its slot; a new index appends a slot.
\<close>

lemma toolCallLoopBody_known:
  assumes tr: "tracks ds s" and known: "tcd_index d \<in> tcd_index ` set ds"
  shows "\<exists>s'. toolCallLoopBody d s = Inr s' \<and> tracks (ds @ [d]) s'"
proof -
  let ?ord = "firstMentions (map tcd_index ds)"
  from known have "slotIndex ?ord (tcd_index d) \<noteq> None"
    by (simp add: slotIndex_None set_firstMentions)
  then obtain k where k: "slotIndex ?ord (tcd_index d) = Some k" by auto
  then have kb: "k < length ?ord" and kv: "?ord ! k = tcd_index d"
    using slotIndex_Some by blast+
  have ord': "firstMentions (map tcd_index (ds @ [d])) = ?ord"
    using known by (simp add: firstMentions_snoc)
  have upd: "(map (slotFor ds) ?ord)[k := mergeDelta d (map (slotFor ds) ?ord ! k)]
             = map (slotFor (ds @ [d])) ?ord"
  proof (rule nth_equalityI)
    show "length ((map (slotFor ds) ?ord)[k := mergeDelta d (map (slotFor ds) ?ord ! k)])
          = length (map (slotFor (ds @ [d])) ?ord)" by simp
  next
    fix j
    assume "j < length ((map (slotFor ds) ?ord)[k := mergeDelta d (map (slotFor ds) ?ord ! k)])"
    then have jb: "j < length ?ord" by simp
    show "(map (slotFor ds) ?ord)[k := mergeDelta d (map (slotFor ds) ?ord ! k)] ! j
          = map (slotFor (ds @ [d])) ?ord ! j"
    proof (cases "j = k")
      case True
      then show ?thesis using kb kv by (simp add: slotFor_snoc)
    next
      case False
      then have "?ord ! j \<noteq> tcd_index d"
        using kb kv jb distinct_firstMentions[of "map tcd_index ds"]
        by (metis nth_eq_iff_index_eq)
      then show ?thesis using False jb by (auto simp: slotFor_snoc)
    qed
  qed
  show ?thesis
    using tr k kb upd ord'
    by (simp add: tracks_def toolCallLoopBody_def expectedToolCalls_def expectedIndices_def
        Let_def)
qed

lemma toolCallLoopBody_fresh:
  assumes tr: "tracks ds s" and fresh: "tcd_index d \<notin> tcd_index ` set ds"
  shows "\<exists>s'. toolCallLoopBody d s = Inr s' \<and> tracks (ds @ [d]) s'"
proof -
  let ?ord = "firstMentions (map tcd_index ds)"
  from fresh have none: "slotIndex ?ord (tcd_index d) = None"
    by (simp add: slotIndex_None set_firstMentions)
  have ord': "firstMentions (map tcd_index (ds @ [d])) = ?ord @ [tcd_index d]"
    using fresh by (simp add: firstMentions_snoc)
  have idx': "slotIndex (?ord @ [tcd_index d]) = (slotIndex ?ord)(tcd_index d \<mapsto> length ?ord)"
    using fresh by (intro slotIndex_snoc) (simp add: set_firstMentions)
  have old: "map (slotFor (ds @ [d])) ?ord = map (slotFor ds) ?ord"
    using fresh by (auto simp: slotFor_snoc set_firstMentions)
  have new: "slotFor (ds @ [d]) (tcd_index d)
             = mergeDelta d \<lparr>acc_id = '''', acc_name = '''', acc_arguments = ''''\<rparr>"
    using fresh by (simp add: slotFor_snoc slotFor_fresh)
  show ?thesis
    using tr none ord' idx' old new
    by (simp add: tracks_def toolCallLoopBody_def expectedToolCalls_def expectedIndices_def
        Let_def mergeDelta_seed snoc_update_last)
qed

lemma toolCallLoop_tracks:
  "tracks ds s \<Longrightarrow> \<exists>s'. toolCallLoop ds' s = Inr s' \<and> tracks (ds @ ds') s'"
proof (induction ds' arbitrary: ds s)
  case Nil
  then show ?case by simp
next
  case (Cons d ds')
  have "\<exists>s1. toolCallLoopBody d s = Inr s1 \<and> tracks (ds @ [d]) s1"
    using Cons.prems toolCallLoopBody_known toolCallLoopBody_fresh by blast
  then obtain s1 where s1: "toolCallLoopBody d s = Inr s1" "tracks (ds @ [d]) s1" by blast
  from Cons.IH[OF s1(2)] obtain s' where
    "toolCallLoop ds' s1 = Inr s'" "tracks ((ds @ [d]) @ ds') s'" by blast
  with s1 show ?case by simp
qed

text \<open>The blocks before and after the loop leave the two tool-call structures alone.\<close>

lemma toolCalls_noteFirstChunk [simp]: "toolCalls (noteFirstChunk now st) = toolCalls st"
  by (simp add: noteFirstChunk_def)

lemma toolCalls_refreshIdentity [simp]: "toolCalls (refreshIdentity c st) = toolCalls st"
  by (simp add: refreshIdentity_def)

lemma toolCalls_recordUsage [simp]: "toolCalls (recordUsage c st) = toolCalls st"
  by (simp add: recordUsage_def split: option.splits)

lemma toolCalls_appendText [simp]: "toolCalls (appendText d st) = toolCalls st"
  by (simp add: appendText_def)

lemma accumulateToolCalls_tracks:
  assumes "tracks ds (toolCalls (state a), currentToolCallIndices a)"
  shows "\<exists>r. accumulateToolCalls c d a = Inr r
            \<and> tracks (ds @ nullish (delta_tool_calls d) [])
                 (toolCalls (state (snd r)), currentToolCallIndices (snd r))"
proof (cases "delta_tool_calls d")
  case None
  then show ?thesis using assms by (simp add: accumulateToolCalls_def nullish_def)
next
  case (Some tds)
  from toolCallLoop_tracks[OF assms, of tds] obtain s' where
    "toolCallLoop tds (toolCalls (state a), currentToolCallIndices a) = Inr s'"
    "tracks (ds @ tds) s'" by blast
  then show ?thesis using Some by (simp add: accumulateToolCalls_def nullish_def tracks_def)
qed

lemma processChunk_tracks:
  assumes "tracks ds (toolCalls (state a), currentToolCallIndices a)"
  shows "\<exists>r. processChunk p sf now c a = Inr r
            \<and> tracks (ds @ firstChoiceDeltas c)
                 (toolCalls (state (snd r)), currentToolCallIndices (snd r))"
proof (cases "chunk_choices c")
  case Nil
  then show ?thesis
    using assms
    by (cases p)
       (simp_all add: processChunk_def minimax_processChunk_def mistral_processChunk_def
          firstChoiceDeltas_def Let_def)
next
  case (Cons choice rest)
  let ?d = "cc_delta choice"
  show ?thesis
  proof (cases p)
    case Minimax
    let ?a1 = "a\<lparr>state := appendText ?d (refreshIdentity c (noteFirstChunk now (state a)))\<rparr>"
    have "tracks ds (toolCalls (state ?a1), currentToolCallIndices ?a1)"
      using assms by simp
    from accumulateToolCalls_tracks[OF this, of c ?d] obtain r where
      r: "accumulateToolCalls c ?d ?a1 = Inr r"
         "tracks (ds @ nullish (delta_tool_calls ?d) [])
            (toolCalls (state (snd r)), currentToolCallIndices (snd r))" by blast
    then show ?thesis
      using Cons Minimax
      by (simp add: processChunk_def minimax_processChunk_def firstChoiceDeltas_def Let_def)
  next
    case Mistral
    let ?a1 = "a\<lparr>state := appendText ?d
                 (recordUsage c (refreshIdentity c (noteFirstChunk now (state a))))\<rparr>"
    have "tracks ds (toolCalls (state ?a1), currentToolCallIndices ?a1)"
      using assms by simp
    from accumulateToolCalls_tracks[OF this, of c ?d] obtain r where
      r: "accumulateToolCalls c ?d ?a1 = Inr r"
         "tracks (ds @ nullish (delta_tool_calls ?d) [])
            (toolCalls (state (snd r)), currentToolCallIndices (snd r))" by blast
    then show ?thesis
      using Cons Mistral
      by (simp add: processChunk_def mistral_processChunk_def firstChoiceDeltas_def Let_def)
  qed
qed

lemma processChunks_tracks:
  "tracks ds (toolCalls (state a), currentToolCallIndices a) \<Longrightarrow>
   \<exists>a'. processChunks (processChunk p sf) cs a = Inr a'
       \<and> tracks (ds @ streamDeltas cs) (toolCalls (state a'), currentToolCallIndices a')"
proof (induction cs arbitrary: ds a)
  case Nil
  then show ?case by (simp add: streamDeltas_def)
next
  case (Cons tc cs)
  from processChunk_tracks[OF Cons.prems, of p sf "fst tc" "snd tc"] obtain r where
    r: "processChunk p sf (fst tc) (snd tc) a = Inr r"
       "tracks (ds @ firstChoiceDeltas (snd tc))
          (toolCalls (state (snd r)), currentToolCallIndices (snd r))" by blast
  from Cons.IH[OF r(2)] obtain a' where
    "processChunks (processChunk p sf) cs (snd r) = Inr a'"
    "tracks ((ds @ firstChoiceDeltas (snd tc)) @ streamDeltas cs)
       (toolCalls (state a'), currentToolCallIndices a')" by blast
  with r show ?case by (simp add: streamDeltas_def)
qed

lemma tracks_new: "tracks [] (toolCalls (state (newStreamAdapter t0)),
                              currentToolCallIndices (newStreamAdapter t0))"
  by (simp add: tracks_def newStreamAdapter_def expectedToolCalls_def expectedIndices_def
      fun_eq_iff)

text \<open>
  C2. For every sequence of chunks fed to a fresh stream adapter of either provider,
  \<^verbatim>\<open>processChunk\<close> never throws, and at the end \<^verbatim>\<open>state.toolCalls\<close> holds one slot per
  stream index, in the order of first mention; a slot's id and name are the last ones
  a fragment of its index carried (empty when none did), and its arguments are the
  concatenation of the argument fragments of its index in arrival order.
\<close>

theorem tool_call_fragments_accumulate:
  "\<exists>a. processChunks (processChunk p sf) cs (newStreamAdapter t0) = Inr a
      \<and> toolCalls (state a) = expectedToolCalls (streamDeltas cs)
      \<and> currentToolCallIndices a = expectedIndices (streamDeltas cs)
      \<and> (\<forall>i. i \<in> tcd_index ` set (streamDeltas cs) \<longrightarrow>
            (\<exists>k. currentToolCallIndices a i = Some k
                \<and> k < length (toolCalls (state a))
                \<and> acc_arguments (toolCalls (state a) ! k)
                    = concat (argumentFragments i (streamDeltas cs))
                \<and> acc_id (toolCalls (state a) ! k)
                    = lastCarried (map tcd_id (deltasOf i (streamDeltas cs)))
                \<and> acc_name (toolCalls (state a) ! k)
                    = lastCarried (map fn_name (deltasOf i (streamDeltas cs)))))"
proof -
  let ?ds = "streamDeltas cs"
  let ?ord = "firstMentions (map tcd_index ?ds)"
  from processChunks_tracks[OF tracks_new, of p sf cs t0] obtain a where
    run: "processChunks (processChunk p sf) cs (newStreamAdapter t0) = Inr a"
    and tr: "tracks ?ds (toolCalls (state a), currentToolCallIndices a)" by auto
  from tr have tcs: "toolCalls (state a) = map (slotFor ?ds) ?ord"
    and idx: "currentToolCallIndices a = slotIndex ?ord"
    by (simp_all add: tracks_def expectedToolCalls_def expectedIndices_def)
  have each: "\<exists>k. currentToolCallIndices a i = Some k
                \<and> k < length (toolCalls (state a))
                \<and> toolCalls (state a) ! k = slotFor ?ds i"
    if "i \<in> tcd_index ` set ?ds" for i
  proof -
    from that have "slotIndex ?ord i \<noteq> None"
      by (simp add: slotIndex_None set_firstMentions)
    then obtain k where k: "slotIndex ?ord i = Some k" by auto
    then have "k < length ?ord" "?ord ! k = i" using slotIndex_Some by blast+
    then show ?thesis using k tcs idx by simp
  qed
  have "\<forall>i. i \<in> tcd_index ` set ?ds \<longrightarrow>
            (\<exists>k. currentToolCallIndices a i = Some k
                \<and> k < length (toolCalls (state a))
                \<and> acc_arguments (toolCalls (state a) ! k) = concat (argumentFragments i ?ds)
                \<and> acc_id (toolCalls (state a) ! k) = lastCarried (map tcd_id (deltasOf i ?ds))
                \<and> acc_name (toolCalls (state a) ! k)
                    = lastCarried (map fn_name (deltasOf i ?ds)))"
  proof (intro allI impI)
    fix i assume "i \<in> tcd_index ` set ?ds"
    from each[OF this] obtain k where
      "currentToolCallIndices a i = Some k" "k < length (toolCalls (state a))"
      "toolCalls (state a) ! k = slotFor ?ds i" by blast
    then show "\<exists>k. currentToolCallIndices a i = Some k
                \<and> k < length (toolCalls (state a))
                \<and> acc_arguments (toolCalls (state a) ! k) = concat (argumentFragments i ?ds)
                \<and> acc_id (toolCalls (state a) ! k) = lastCarried (map tcd_id (deltasOf i ?ds))
                \<and> acc_name (toolCalls (state a) ! k)
                    = lastCarried (map fn_name (deltasOf i ?ds))"
      by (simp add: slotFor_def)
  qed
  with run tr show ?thesis by (auto simp: tracks_def)
qed

lemma exampleStream_deltas:
  "streamDeltas exampleStream =
     [\<lparr>tcd_index = 1, tcd_id = Some ''call_a'', tcd_type = Some ''function'',
       tcd_function = Some \<lparr>fd_name = Some ''read_file'', fd_arguments = Some ''{''\<rparr>\<rparr>,
      \<lparr>tcd_index = 0, tcd_id = Some ''call_b'', tcd_type = Some ''function'',
       tcd_function = Some \<lparr>fd_name = Some ''list_dir'', fd_arguments = None\<rparr>\<rparr>,
      \<lparr>tcd_index = 1, tcd_id = None, tcd_type = Some ''function'',
       tcd_function = Some \<lparr>fd_name = None, fd_arguments = Some ''}''\<rparr>\<rparr>,
      \<lparr>tcd_index = 0, tcd_id = None, tcd_type = Some ''function'',
       tcd_function = Some \<lparr>fd_name = Some '''', fd_arguments = Some ''[]''\<rparr>\<rparr>]"
  by (simp add: streamDeltas_def exampleStream_def firstChoiceDeltas_def deltaChunk_def
      emptyChunk_def toolDelta_def textDelta_def noDelta_def nullish_def)

theorem tool_call_fragments_accumulate_witness:
  "\<exists>a. processChunks (processChunk Mistral stubStringify) exampleStream (newStreamAdapter 0)
         = Inr a
      \<and> toolCalls (state a) =
          [\<lparr>acc_id = ''call_a'', acc_name = ''read_file'', acc_arguments = ''{}''\<rparr>,
           \<lparr>acc_id = ''call_b'', acc_name = ''list_dir'', acc_arguments = ''[]''\<rparr>]
      \<and> currentToolCallIndices a 1 = Some 0
      \<and> currentToolCallIndices a 0 = Some 1"
proof -
  from tool_call_fragments_accumulate[of Mistral stubStringify exampleStream 0]
  obtain a where
    run: "processChunks (processChunk Mistral stubStringify) exampleStream (newStreamAdapter 0)
            = Inr a"
    and tcs: "toolCalls (state a) = expectedToolCalls (streamDeltas exampleStream)"
    and idx: "currentToolCallIndices a = expectedIndices (streamDeltas exampleStream)"
    by blast
  have "expectedToolCalls (streamDeltas exampleStream) =
          [\<lparr>acc_id = ''call_a'', acc_name = ''read_file'', acc_arguments = ''{}''\<rparr>,
           \<lparr>acc_id = ''call_b'', acc_name = ''list_dir'', acc_arguments = ''[]''\<rparr>]"
    by (simp add: exampleStream_deltas expectedToolCalls_def slotFor_def deltasOf_def
        argumentFragments_def lastCarried_def truthy_def nullish_def fn_name_def
        fn_arguments_def)
  moreover have "expectedIndices (streamDeltas exampleStream) 1 = Some 0"
    "expectedIndices (streamDeltas exampleStream) 0 = Some 1"
    by (simp_all add: exampleStream_deltas expectedIndices_def)
  ultimately show ?thesis using run tcs idx by auto
qed

section \<open>The stream adapters: text, stop reason and the empty chunk\<close>

lemma stext_blocks [simp]:
  "stext (noteFirstChunk now st) = stext st"
  "stext (refreshIdentity c st) = stext st"
  "stext (recordUsage c st) = stext st"
  by (simp_all add: noteFirstChunk_def refreshIdentity_def recordUsage_def split: option.splits)

lemma stopReason_blocks [simp]:
  "stopReason (noteFirstChunk now st) = stopReason st"
  "stopReason (refreshIdentity c st) = stopReason st"
  "stopReason (recordUsage c st) = stopReason st"
  "stopReason (appendText d st) = stopReason st"
  by (simp_all add: noteFirstChunk_def refreshIdentity_def recordUsage_def appendText_def
      split: option.splits)

lemma usage_blocks [simp]:
  "usage (noteFirstChunk now st) = usage st"
  "usage (refreshIdentity c st) = usage st"
  "usage (appendText d st) = usage st"
  "chunk_usage c = None \<Longrightarrow> usage (recordUsage c st) = usage st"
  by (simp_all add: noteFirstChunk_def refreshIdentity_def recordUsage_def appendText_def)

lemma rawToolCallEvents_blocks [simp]:
  "rawToolCallEvents (noteFirstChunk now st) = rawToolCallEvents st"
  "rawToolCallEvents (refreshIdentity c st) = rawToolCallEvents st"
  "rawToolCallEvents (recordUsage c st) = rawToolCallEvents st"
  by (simp_all add: noteFirstChunk_def refreshIdentity_def recordUsage_def split: option.splits)

lemma stext_appendText:
  "stext (appendText d st) =
     stext st @ (if truthy (delta_content d) then nullish (delta_content d) '''' else '''')"
  by (simp add: appendText_def)

lemma accumulateToolCalls_keeps:
  assumes "accumulateToolCalls c d a = Inr r"
  shows "stext (state (snd r)) = stext (state a)
       \<and> stopReason (state (snd r)) = stopReason (state a)
       \<and> usage (state (snd r)) = usage (state a)"
  using assms by (auto simp: accumulateToolCalls_def split: option.splits sum.splits)

text \<open>One call of \<^verbatim>\<open>processChunk\<close> that returns: what it does to the text and the stop reason.\<close>

lemma processChunk_text_stop:
  assumes "processChunk p sf now c a = Inr r"
  shows "stext (state (snd r)) = stext (state a) @ chunkText c
       \<and> stopReason (state (snd r)) = stopAfter c (stopReason (state a))"
proof (cases "chunk_choices c")
  case Nil
  then show ?thesis
    using assms
    by (cases p)
       (auto simp: processChunk_def minimax_processChunk_def mistral_processChunk_def Let_def
          chunkText_def stopAfter_def chunkFinish_def truthy_def)
next
  case (Cons choice rest)
  let ?d = "cc_delta choice"
  show ?thesis
  proof (cases p)
    case Minimax
    let ?a1 = "a\<lparr>state := appendText ?d (refreshIdentity c (noteFirstChunk now (state a)))\<rparr>"
    from assms Cons Minimax obtain r1 where
      r1: "accumulateToolCalls c ?d ?a1 = Inr r1"
      by (auto simp: processChunk_def minimax_processChunk_def Let_def split: sum.splits)
    from accumulateToolCalls_keeps[OF r1]
    have keep: "stext (state (snd r1)) = stext (state ?a1)"
               "stopReason (state (snd r1)) = stopReason (state ?a1)" by simp_all
    from assms Cons Minimax r1 keep show ?thesis
      by (auto simp: processChunk_def minimax_processChunk_def Let_def chunkText_def
          stopAfter_def chunkFinish_def stext_appendText)
  next
    case Mistral
    let ?a1 = "a\<lparr>state := appendText ?d
                 (recordUsage c (refreshIdentity c (noteFirstChunk now (state a))))\<rparr>"
    from assms Cons Mistral obtain r1 where
      r1: "accumulateToolCalls c ?d ?a1 = Inr r1"
      by (auto simp: processChunk_def mistral_processChunk_def Let_def split: sum.splits)
    from accumulateToolCalls_keeps[OF r1]
    have keep: "stext (state (snd r1)) = stext (state ?a1)"
               "stopReason (state (snd r1)) = stopReason (state ?a1)" by simp_all
    from assms Cons Mistral r1 keep show ?thesis
      by (auto simp: processChunk_def mistral_processChunk_def Let_def chunkText_def
          stopAfter_def chunkFinish_def stext_appendText)
  qed
qed

lemma processChunks_text_stop:
  "processChunks (processChunk p sf) cs a = Inr a' \<Longrightarrow>
   stext (state a') = stext (state a) @ concat (map (\<lambda>tc. chunkText (snd tc)) cs)
   \<and> stopReason (state a') = fold (\<lambda>tc. stopAfter (snd tc)) cs (stopReason (state a))"
proof (induction cs arbitrary: a)
  case Nil
  then show ?case by simp
next
  case (Cons tc cs)
  from Cons.prems obtain r where
    r: "processChunk p sf (fst tc) (snd tc) a = Inr r"
    and rest: "processChunks (processChunk p sf) cs (snd r) = Inr a'"
    by (auto split: sum.splits)
  from processChunk_text_stop[OF r] Cons.IH[OF rest] show ?case by simp
qed

lemma stopAfter_keeps_set: "r \<noteq> None \<Longrightarrow> stopAfter c r \<noteq> None"
  by (auto simp: stopAfter_def truthy_def split: option.splits)

lemma fold_stopAfter_keeps_set:
  "r \<noteq> None \<Longrightarrow> fold (\<lambda>tc. stopAfter (snd tc)) cs r \<noteq> None"
proof (induction cs arbitrary: r)
  case Nil
  then show ?case by simp
next
  case (Cons tc cs)
  from Cons.prems have "stopAfter (snd tc) r \<noteq> None" by (rule stopAfter_keeps_set)
  from Cons.IH[OF this] show ?case by simp
qed

lemma fold_stopAfter_omitted:
  "list_all (\<lambda>tc. \<not> truthy (chunkFinish (snd tc))) cs \<Longrightarrow>
   fold (\<lambda>tc. stopAfter (snd tc)) cs r = r"
  by (induction cs arbitrary: r) (simp_all add: stopAfter_def)

text \<open>
  C6, as amended. For both stream adapters: a stream fed to a fresh adapter never
  makes \<^verbatim>\<open>processChunk\<close> throw, whatever came before (\<open>cs1\<close>) and whatever follows
  (\<open>cs2\<close>). Whenever a run of \<^verbatim>\<open>processChunk\<close> calls returns, the text after it is the
  text before it followed by the chunks' texts (so it never shrinks); the stop reason
  after it is the finish reason of the last chunk whose first choice carried a
  non-empty one, and the stop reason before the run when no chunk did. So a stop
  reason that is set is never cleared, and chunks that omit the finish reason leave it
  as it is.
\<close>

theorem stop_reason_kept_text_grows:
  "(\<exists>a1 a2. processChunks (processChunk p sf) cs1 (newStreamAdapter t0) = Inr a1
            \<and> processChunks (processChunk p sf) cs2 a1 = Inr a2)
   \<and> (\<forall>a a'. processChunks (processChunk p sf) cs a = Inr a' \<longrightarrow>
          stext (state a') = stext (state a) @ concat (map (\<lambda>tc. chunkText (snd tc)) cs)
          \<and> prefix (stext (state a)) (stext (state a'))
          \<and> stopReason (state a') = fold (\<lambda>tc. stopAfter (snd tc)) cs (stopReason (state a))
          \<and> (stopReason (state a) \<noteq> None \<longrightarrow> stopReason (state a') \<noteq> None)
          \<and> (list_all (\<lambda>tc. \<not> truthy (chunkFinish (snd tc))) cs \<longrightarrow>
                stopReason (state a') = stopReason (state a)))"
proof (intro conjI allI impI)
  from processChunks_tracks[OF tracks_new, of p sf cs1 t0] obtain a1 where
    a1: "processChunks (processChunk p sf) cs1 (newStreamAdapter t0) = Inr a1"
    and tr: "tracks ([] @ streamDeltas cs1) (toolCalls (state a1), currentToolCallIndices a1)"
    by blast
  from processChunks_tracks[OF tr, of p sf cs2] obtain a2 where
    "processChunks (processChunk p sf) cs2 a1 = Inr a2" by blast
  with a1 show "\<exists>a1 a2. processChunks (processChunk p sf) cs1 (newStreamAdapter t0) = Inr a1
                  \<and> processChunks (processChunk p sf) cs2 a1 = Inr a2" by blast
next
  fix a a'
  assume run: "processChunks (processChunk p sf) cs a = Inr a'"
  from processChunks_text_stop[OF run]
  have grow: "stext (state a') = stext (state a) @ concat (map (\<lambda>tc. chunkText (snd tc)) cs)"
    and stop: "stopReason (state a') = fold (\<lambda>tc. stopAfter (snd tc)) cs (stopReason (state a))"
    by simp_all
  show "stext (state a') = stext (state a) @ concat (map (\<lambda>tc. chunkText (snd tc)) cs)"
    by (rule grow)
  show "prefix (stext (state a)) (stext (state a'))"
    using grow by simp
  show "stopReason (state a') = fold (\<lambda>tc. stopAfter (snd tc)) cs (stopReason (state a))"
    by (rule stop)
  show "stopReason (state a') \<noteq> None" if "stopReason (state a) \<noteq> None"
    using stop that by (simp add: fold_stopAfter_keeps_set)
  show "stopReason (state a') = stopReason (state a)"
    if "list_all (\<lambda>tc. \<not> truthy (chunkFinish (snd tc))) cs"
    using stop that by (simp add: fold_stopAfter_omitted)
qed

text \<open>
  A stream whose first chunk sets the stop reason \<^verbatim>\<open>"length"\<close>, followed by a text chunk
  and an empty chunk: the text grows to \<^verbatim>\<open>Hello\<close> and the stop reason stays.
\<close>

theorem stop_reason_kept_text_grows_witness:
  "\<exists>a1 a2. processChunks (processChunk Minimax stubStringify)
              [(1, deltaChunk noDelta (Some ''length''))] (newStreamAdapter 0) = Inr a1
          \<and> processChunks (processChunk Minimax stubStringify)
              [(5, deltaChunk (textDelta ''Hello'') None), (6, emptyChunk)] a1 = Inr a2
          \<and> stext (state a1) = '''' \<and> stopReason (state a1) = Some ''length''
          \<and> stext (state a2) = ''Hello'' \<and> stopReason (state a2) = Some ''length''"
proof -
  let ?cs1 = "[(1, deltaChunk noDelta (Some ''length''))]"
  let ?cs2 = "[(5, deltaChunk (textDelta ''Hello'') None), (6, emptyChunk)]"
  from stop_reason_kept_text_grows[of Minimax stubStringify ?cs1 0 ?cs2]
  obtain a1 a2 where
    r1: "processChunks (processChunk Minimax stubStringify) ?cs1 (newStreamAdapter 0) = Inr a1"
    and r2: "processChunks (processChunk Minimax stubStringify) ?cs2 a1 = Inr a2"
    by blast
  from stop_reason_kept_text_grows[of Minimax stubStringify ?cs1 0 ?cs2 ?cs1] r1
  have s1: "stext (state a1) = ''''" "stopReason (state a1) = Some ''length''"
    by (simp_all add: newStreamAdapter_def chunkText_def stopAfter_def chunkFinish_def
        deltaChunk_def noDelta_def emptyChunk_def truthy_def)
  from stop_reason_kept_text_grows[of Minimax stubStringify ?cs1 0 ?cs2 ?cs2] r2
  have s2: "stext (state a2) = stext (state a1) @ ''Hello''"
    "stopReason (state a2) = stopReason (state a1)"
    by (simp_all add: chunkText_def stopAfter_def chunkFinish_def deltaChunk_def textDelta_def
        emptyChunk_def truthy_def nullish_def)
  from r1 r2 s1 s2 show ?thesis by simp
qed

text \<open>
  C6 as stated fails: a MiniMax adapter whose stop reason is \<^verbatim>\<open>"length"\<close>, reached from a
  fresh adapter by one chunk, has the stop reason \<^verbatim>\<open>"stop"\<close> after a later chunk that
  carries this finish reason.
\<close>

theorem stop_reason_overwritten_counterexample:
  "processChunk Minimax stubStringify 1 (deltaChunk noDelta (Some ''length''))
     (newStreamAdapter 0)
     = Inr (\<lparr>sseData = None, isToolCallChunk = False, isFinal = True\<rparr>,
            adapterWith (Some ''length'') None 1)
   \<and> stopReason (state (adapterWith (Some ''length'') None 1)) = Some ''length''
   \<and> processChunk Minimax stubStringify 2 (deltaChunk noDelta (Some ''stop''))
       (adapterWith (Some ''length'') None 1)
       = Inr (\<lparr>sseData = None, isToolCallChunk = False, isFinal = True\<rparr>,
              adapterWith (Some ''stop'') None 1)
   \<and> stopReason (state (adapterWith (Some ''stop'') None 1)) = Some ''stop''"
  by (simp add: processChunk_def minimax_processChunk_def deltaChunk_def noDelta_def
      emptyChunk_def adapterWith_def newStreamAdapter_def accumulateToolCalls_def Let_def
      noteFirstChunk_def refreshIdentity_def recordUsage_def appendText_def truthy_def)

text \<open>
  C8, as amended. A chunk with an empty \<^verbatim>\<open>choices\<close> array and no usage makes
  \<^verbatim>\<open>processChunk\<close> return without an exception, with no server-sent-event data and not
  as a tool-call chunk, and leaves the text, the tool calls, the stop reason, the
  usage, the raw tool-call events and the index map unchanged. The result is not final
  for MiniMax; for Mistral it is final exactly when an earlier chunk has left a usage
  in the state.
\<close>

theorem empty_chunk_is_noop:
  assumes "chunk_choices c = []" and "chunk_usage c = None"
  shows "\<exists>a'. processChunk p sf now c a
               = Inr (\<lparr>sseData = None, isToolCallChunk = False,
                       isFinal = (p = Mistral \<and> usage (state a) \<noteq> None)\<rparr>, a')
             \<and> stext (state a') = stext (state a)
             \<and> toolCalls (state a') = toolCalls (state a)
             \<and> stopReason (state a') = stopReason (state a)
             \<and> usage (state a') = usage (state a)
             \<and> rawToolCallEvents (state a') = rawToolCallEvents (state a)
             \<and> currentToolCallIndices a' = currentToolCallIndices a"
  using assms
  by (cases p)
     (simp_all add: processChunk_def minimax_processChunk_def mistral_processChunk_def Let_def)

theorem empty_chunk_is_noop_witness:
  "chunk_choices emptyChunk = [] \<and> chunk_usage emptyChunk = None
   \<and> (\<exists>a'. processChunk Mistral stubStringify 1 emptyChunk (newStreamAdapter 0)
               = Inr (\<lparr>sseData = None, isToolCallChunk = False, isFinal = False\<rparr>, a')
          \<and> stext (state a') = '''' \<and> toolCalls (state a') = []
          \<and> stopReason (state a') = None)"
proof -
  have h: "chunk_choices emptyChunk = []" "chunk_usage emptyChunk = None"
    by (simp_all add: emptyChunk_def)
  from empty_chunk_is_noop[OF h, of Mistral stubStringify 1 "newStreamAdapter 0"]
  obtain a' where
    "processChunk Mistral stubStringify 1 emptyChunk (newStreamAdapter 0)
       = Inr (\<lparr>sseData = None, isToolCallChunk = False,
               isFinal = (Mistral = Mistral \<and> usage (state (newStreamAdapter 0)) \<noteq> None)\<rparr>, a')"
    "stext (state a') = stext (state (newStreamAdapter 0))"
    "toolCalls (state a') = toolCalls (state (newStreamAdapter 0))"
    "stopReason (state a') = stopReason (state (newStreamAdapter 0))"
    by blast
  then have "processChunk Mistral stubStringify 1 emptyChunk (newStreamAdapter 0)
               = Inr (\<lparr>sseData = None, isToolCallChunk = False, isFinal = False\<rparr>, a')
           \<and> stext (state a') = '''' \<and> toolCalls (state a') = []
           \<and> stopReason (state a') = None"
    by (simp add: newStreamAdapter_def)
  with h show ?thesis by blast
qed

text \<open>
  C8 as stated fails for Mistral: after a chunk that carried usage, a chunk with no
  choices and no usage is reported as final.
\<close>

theorem empty_chunk_final_counterexample:
  "chunk_choices emptyChunk = [] \<and> chunk_usage emptyChunk = None
   \<and> processChunk Mistral stubStringify 1 usageChunk (newStreamAdapter 0)
       = Inr (\<lparr>sseData = None, isToolCallChunk = False, isFinal = True\<rparr>,
              adapterWith None (Some \<lparr>inputTokens = 3, outputTokens = 4\<rparr>) 1)
   \<and> processChunk Mistral stubStringify 2 emptyChunk
       (adapterWith None (Some \<lparr>inputTokens = 3, outputTokens = 4\<rparr>) 1)
       = Inr (\<lparr>sseData = None, isToolCallChunk = False, isFinal = True\<rparr>,
              adapterWith None (Some \<lparr>inputTokens = 3, outputTokens = 4\<rparr>) 1)"
  by (simp add: processChunk_def mistral_processChunk_def usageChunk_def emptyChunk_def
      adapterWith_def newStreamAdapter_def Let_def noteFirstChunk_def refreshIdentity_def
      recordUsage_def nullish_def)

section \<open>Finalization and refusal\<close>

text \<open>
  C3. For every accumulator state, the response \<^verbatim>\<open>toProviderResponse()\<close> builds has
  exactly one choice; its \<^verbatim>\<open>finish_reason\<close> is the accumulated stop reason, and
  \<^verbatim>\<open>"stop"\<close> when there is none; its usage holds the accumulated input and output token
  counts and their sum, and 0, 0 and 0 when no usage was received; its message has a
  \<^verbatim>\<open>tool_calls\<close> array exactly when at least one tool call was accumulated, and then one
  function call per accumulated tool call.
\<close>

theorem provider_response_defaults:
  "\<exists>c. resp_choices (toProviderResponse now st) = [c]
      \<and> ch_finish_reason c = Some (case stopReason st of None \<Rightarrow> ''stop'' | Some r \<Rightarrow> r)
      \<and> (stopReason st = None \<longrightarrow> ch_finish_reason c = Some ''stop'')
      \<and> resp_usage (toProviderResponse now st)
          = Some \<lparr>prompt_tokens = Some (case usage st of None \<Rightarrow> 0 | Some u \<Rightarrow> inputTokens u),
                  completion_tokens = Some (case usage st of None \<Rightarrow> 0 | Some u \<Rightarrow> outputTokens u),
                  total_tokens = Some ((case usage st of None \<Rightarrow> 0 | Some u \<Rightarrow> inputTokens u)
                                       + (case usage st of None \<Rightarrow> 0 | Some u \<Rightarrow> outputTokens u))\<rparr>
      \<and> (usage st = None \<longrightarrow>
            resp_usage (toProviderResponse now st)
              = Some \<lparr>prompt_tokens = Some 0, completion_tokens = Some 0, total_tokens = Some 0\<rparr>)
      \<and> (rm_tool_calls (ch_message c) \<noteq> None) = (toolCalls st \<noteq> [])
      \<and> (toolCalls st \<noteq> [] \<longrightarrow>
            rm_tool_calls (ch_message c)
              = Some (map (\<lambda>tc. \<lparr>tc_id = acc_id tc, tc_type = Function,
                                   tc_function = \<lparr>fc_arguments = acc_arguments tc,
                                                  fc_name = acc_name tc\<rparr>\<rparr>)
                          (toolCalls st)))"
  by (simp add: toProviderResponse_def Let_def nullish_def split: option.splits)

text \<open>
  The state of the spec's scenario: the stream ended with a usage chunk and without a
  finish reason.
\<close>

theorem provider_response_defaults_witness:
  "\<exists>c. resp_choices (toProviderResponse 5000
           (state (adapterWith None (Some \<lparr>inputTokens = 3, outputTokens = 4\<rparr>) 1))) = [c]
      \<and> ch_finish_reason c = Some ''stop''
      \<and> rm_tool_calls (ch_message c) = None
      \<and> resp_usage (toProviderResponse 5000
           (state (adapterWith None (Some \<lparr>inputTokens = 3, outputTokens = 4\<rparr>) 1)))
          = Some \<lparr>prompt_tokens = Some 3, completion_tokens = Some 4, total_tokens = Some 7\<rparr>
      \<and> resp_usage (toProviderResponse 5000 (state (newStreamAdapter 0)))
          = Some \<lparr>prompt_tokens = Some 0, completion_tokens = Some 0, total_tokens = Some 0\<rparr>"
proof -
  from provider_response_defaults
    [of 5000 "state (adapterWith None (Some \<lparr>inputTokens = 3, outputTokens = 4\<rparr>) 1)"]
  obtain c where
    "resp_choices (toProviderResponse 5000
       (state (adapterWith None (Some \<lparr>inputTokens = 3, outputTokens = 4\<rparr>) 1))) = [c]"
    "ch_finish_reason c = Some ''stop''"
    "rm_tool_calls (ch_message c) = None"
    "resp_usage (toProviderResponse 5000
       (state (adapterWith None (Some \<lparr>inputTokens = 3, outputTokens = 4\<rparr>) 1)))
      = Some \<lparr>prompt_tokens = Some 3, completion_tokens = Some 4, total_tokens = Some 7\<rparr>"
    by (auto simp: adapterWith_def)
  moreover from provider_response_defaults[of 5000 "state (newStreamAdapter 0)"]
  have "resp_usage (toProviderResponse 5000 (state (newStreamAdapter 0)))
          = Some \<lparr>prompt_tokens = Some 0, completion_tokens = Some 0, total_tokens = Some 0\<rparr>"
    by (auto simp: newStreamAdapter_def)
  ultimately show ?thesis by blast
qed

text \<open>
  C4. For every completed response and every pair of strings, \<^verbatim>\<open>toRefusalResponse\<close> of
  either provider returns a response with exactly one choice: its message is an
  assistant message whose content is \<^verbatim>\<open>contentMessage\<close> and which has no tool calls
  (and no function call), its \<^verbatim>\<open>finish_reason\<close> is \<^verbatim>\<open>"stop"\<close>, and the choice keeps the
  index of the original first choice when there is one. The adapter's own readers see
  the same: \<^verbatim>\<open>getText\<close> gives \<^verbatim>\<open>contentMessage\<close> and \<^verbatim>\<open>hasToolCalls\<close> is false. The other
  fields of the response are those of the original.
\<close>

theorem refusal_response_shape:
  "resp_choices (toRefusalResponse p r refusalMessage contentMessage)
     = [\<lparr>ch_index = (case resp_choices r of [] \<Rightarrow> None | c # _ \<Rightarrow> ch_index c),
         ch_logprobs = (case resp_choices r of [] \<Rightarrow> None | c # _ \<Rightarrow> ch_logprobs c),
         ch_message = \<lparr>rm_content = Some contentMessage, rm_role = ''assistant'',
                        rm_function_call = None, rm_tool_calls = None\<rparr>,
         ch_finish_reason = Some ''stop''\<rparr>]
   \<and> getText p (toRefusalResponse p r refusalMessage contentMessage) = contentMessage
   \<and> hasToolCalls (toRefusalResponse p r refusalMessage contentMessage) = False
   \<and> resp_id (toRefusalResponse p r refusalMessage contentMessage) = resp_id r
   \<and> resp_model (toRefusalResponse p r refusalMessage contentMessage) = resp_model r
   \<and> resp_created (toRefusalResponse p r refusalMessage contentMessage) = resp_created r
   \<and> resp_usage (toRefusalResponse p r refusalMessage contentMessage) = resp_usage r"
  by (cases p)
     (auto simp: toRefusalResponse_def getText_def hasToolCalls_def nullish_def falsy_or_def
        truthy_def)

section \<open>The request adapter\<close>

lemma adapterAfter_accessor: "\<not> isMutation m \<Longrightarrow> adapterAfter p ext m a = a"
  by (cases m) simp_all

lemma adapterAfter_accessors:
  "list_all (\<lambda>m. \<not> isMutation m) calls \<Longrightarrow> fold (adapterAfter p ext) calls a = a"
  by (induction calls arbitrary: a) (simp_all add: adapterAfter_accessor)

text \<open>
  C7. For the request adapters of both providers: after any sequence of calls none of
  which is \<^verbatim>\<open>setModel\<close>, \<^verbatim>\<open>updateToolResult\<close>, \<^verbatim>\<open>applyToolResultUpdates\<close> or
  \<^verbatim>\<open>applyToonCompression\<close> (the sequence may hold \<^verbatim>\<open>toProviderRequest\<close> itself and every
  accessor), the adapter's fields are what they were, and \<^verbatim>\<open>toProviderRequest()\<close> yields
  the same request as before the sequence: the model override if one is set, and the
  messages with the buffered tool-result updates applied.
\<close>

theorem toProviderRequest_repeatable:
  assumes "list_all (\<lambda>m. \<not> isMutation m) calls"
  shows "fold (adapterAfter p ext) (ToProviderRequest # calls) a = a
       \<and> toProviderRequest (fold (adapterAfter p ext) (ToProviderRequest # calls) a)
           = toProviderRequest a
       \<and> req_model (toProviderRequest a) = nullish (modifiedModel a) (req_model (request a))
       \<and> req_messages (toProviderRequest a)
           = applyUpdates (req_messages (request a)) (toolResultUpdates a)"
proof -
  have "fold (adapterAfter p ext) (ToProviderRequest # calls) a = a"
    using assms by (simp add: adapterAfter_accessors)
  moreover have "req_model (toProviderRequest a) = nullish (modifiedModel a) (req_model (request a))"
    by (simp add: toProviderRequest_def getModel_def Let_def)
  moreover have "req_messages (toProviderRequest a)
                   = applyUpdates (req_messages (request a)) (toolResultUpdates a)"
    by (simp add: toProviderRequest_def applyUpdates_def Let_def)
  ultimately show ?thesis by simp
qed

theorem toProviderRequest_repeatable_witness:
  "list_all (\<lambda>m. \<not> isMutation m)
     [GetModel, GetMessages, GetToolResults, GetTools, HasTools, IsStreaming,
      GetProviderMessages, GetOriginalRequest, ToProviderRequest]
   \<and> toProviderRequest
       (fold (adapterAfter Minimax stubExternals)
          [ToProviderRequest, GetModel, GetMessages, GetToolResults, GetTools, HasTools,
           IsStreaming, GetProviderMessages, GetOriginalRequest, ToProviderRequest]
          (updateToolResult ''call_a'' ''none'' (setModel ''m2'' (newRequestAdapter exampleRequest))))
     = \<lparr>req_model = ''m2'',
        req_messages =
          [Typed (UserMessage (Text ''list the files'') None),
           Typed (AssistantMessage None None
             (Some [\<lparr>tc_id = ''call_a'', tc_type = Function,
                     tc_function = \<lparr>fc_arguments = ''{}'', fc_name = ''list_dir''\<rparr>\<rparr>]) None),
           Typed (ToolMessage (Text ''none'') ''call_a'' None),
           Typed (ToolMessage (Text ''not json'') ''call_zz'' None)],
        req_tools = None, req_stream = None, req_rest = ()\<rparr>"
proof -
  have h: "list_all (\<lambda>m. \<not> isMutation m)
     [GetModel, GetMessages, GetToolResults, GetTools, HasTools, IsStreaming,
      GetProviderMessages, GetOriginalRequest, ToProviderRequest]" by simp
  have "toProviderRequest
          (updateToolResult ''call_a'' ''none'' (setModel ''m2'' (newRequestAdapter exampleRequest)))
        = \<lparr>req_model = ''m2'',
           req_messages =
             [Typed (UserMessage (Text ''list the files'') None),
              Typed (AssistantMessage None None
                (Some [\<lparr>tc_id = ''call_a'', tc_type = Function,
                        tc_function = \<lparr>fc_arguments = ''{}'', fc_name = ''list_dir''\<rparr>\<rparr>]) None),
              Typed (ToolMessage (Text ''none'') ''call_a'' None),
              Typed (ToolMessage (Text ''not json'') ''call_zz'' None)],
           req_tools = None, req_stream = None, req_rest = ()\<rparr>"
    by (simp add: toProviderRequest_def updateToolResult_def setModel_def newRequestAdapter_def
        exampleRequest_def exampleMessages_def applyUpdates_def getModel_def nullish_def
        getProperty_def setProperty_def objectPrototypeNames_def Let_def)
  with toProviderRequest_repeatable[OF h, of Minimax stubExternals
         "updateToolResult ''call_a'' ''none'' (setModel ''m2'' (newRequestAdapter exampleRequest))"]
       h
  show ?thesis by simp
qed

text \<open>
  Two runs at the names a plain object inherits. An update recorded under
  \<^verbatim>\<open>__proto__\<close> is lost, so the tool message with that id gets the prototype as its
  content like every message with an inherited name as its id, once some update is
  buffered; \<^verbatim>\<open>toProviderRequest\<close> gives the same request each time there, too.
\<close>

lemma update_under_proto_is_lost:
  "updateToolResult ''__proto__'' ''x'' (newRequestAdapter exampleRequest)
     = newRequestAdapter exampleRequest"
  by (simp add: updateToolResult_def setProperty_def newRequestAdapter_def)

lemma inherited_name_replaces_content:
  "applyUpdates [ToolMessage (Text ''[]'') ''constructor'' None,
                 ToolMessage (Text ''[]'') ''call_a'' None,
                 ToolMessage (Text ''[]'') ''call_b'' None]
     (setProperty ''call_a'' ''none'' [])
   = [ToolWithInherited ''constructor'' ''constructor'' None,
      Typed (ToolMessage (Text ''none'') ''call_a'' None),
      Typed (ToolMessage (Text ''[]'') ''call_b'' None)]"
  by (simp add: applyUpdates_def setProperty_def getProperty_def objectPrototypeNames_def)

section \<open>Naming tool results\<close>

text \<open>
  The inner loop finds the first tool call with the id; the type test of MiniMax never
  fails, the type being the one-valued enum.
\<close>

lemma findInToolCalls_find:
  "findInToolCalls p tcs toolCallId
     = map_option (\<lambda>tc. fc_name (tc_function tc)) (find (\<lambda>tc. tc_id tc = toolCallId) tcs)"
proof (induction tcs)
  case Nil
  then show ?case by simp
next
  case (Cons tc tcs)
  have "tc_type tc = Function" by (cases "tc_type tc") simp
  with Cons show ?case by (cases p) simp_all
qed

lemma findInMessage_matchingCall:
  "findInMessage p m toolCallId
     = map_option (\<lambda>tc. fc_name (tc_function tc)) (matchingCall toolCallId m)"
  by (induction p m toolCallId rule: findInMessage.induct) (simp_all add: findInToolCalls_find)

lemma scanBackFrom_find:
  "n \<le> length messages \<Longrightarrow>
   scanBackFrom p n messages toolCallId
     = (case find (\<lambda>m. matchingCall toolCallId m \<noteq> None) (rev (take n messages)) of
          None \<Rightarrow> None
        | Some m \<Rightarrow> map_option (\<lambda>tc. fc_name (tc_function tc)) (matchingCall toolCallId m))"
proof (induction n)
  case 0
  then show ?case by simp
next
  case (Suc n)
  then have n: "n < length messages" by simp
  then have tk: "rev (take (Suc n) messages) = messages ! n # rev (take n messages)"
    by (simp add: take_Suc_conv_app_nth)
  show ?case
  proof (cases "matchingCall toolCallId (messages ! n)")
    case None
    with Suc n tk show ?thesis by (simp add: findInMessage_matchingCall)
  next
    case (Some tc)
    with tk show ?thesis by (simp add: findInMessage_matchingCall)
  qed
qed

lemma findToolNameInMessages_mostRecentMatch:
  "findToolNameInMessages p messages toolCallId = mostRecentMatch messages toolCallId"
  by (simp add: findToolNameInMessages_def mostRecentMatch_def scanBackFrom_find)

lemma unmatched_mostRecentMatch:
  "unmatched messages toolCallId \<Longrightarrow> mostRecentMatch messages toolCallId = None"
proof -
  assume "unmatched messages toolCallId"
  then have "find (\<lambda>m. matchingCall toolCallId m \<noteq> None) (rev messages) = None"
    by (auto simp: unmatched_def find_None_iff list_all_iff)
  then show ?thesis by (simp add: mostRecentMatch_def)
qed

lemma toolResultOf_concat:
  "concat (map (toolResultOf p ext all) ms)
     = map (\<lambda>t. \<lparr>tr_id = snd t,
                  tr_name = nullish (findToolNameInMessages p all (snd t)) ''unknown'',
                  tr_content = parseToolContent ext (fst t),
                  tr_isError = False\<rparr>)
           (toolMessagesOf ms)"
  by (induction ms rule: toolMessagesOf.induct) simp_all

lemma toolMessagesOf_member:
  "ToolMessage c tool_call_id n \<in> set ms \<Longrightarrow> (c, tool_call_id) \<in> set (toolMessagesOf ms)"
  by (induction ms rule: toolMessagesOf.induct) auto

lemma getMessages_tool_message:
  assumes "i < length (req_messages (request a))"
    and "req_messages (request a) ! i = ToolMessage c tool_call_id n"
  shows "getMessages p ext a ! i =
           \<lparr>cm_role = ''tool'', cm_content = None,
            cm_toolCalls =
              (case mostRecentMatch (req_messages (request a)) tool_call_id of
                 None \<Rightarrow> None
               | Some name \<Rightarrow>
                   if name = '''' then None
                   else Some [\<lparr>tr_id = tool_call_id, tr_name = name,
                               tr_content = parseToolContent ext c, tr_isError = False\<rparr>])\<rparr>"
  using assms
  by (simp add: getMessages_def toCommonFormat_def findToolNameInMessages_mostRecentMatch
      truthy_def nullish_def split: option.splits)

text \<open>
  C9, as amended. For the request adapters of both providers, \<^verbatim>\<open>findToolNameInMessages\<close>
  is the backward scan of the spec: the name of the matching tool call in the last
  assistant message of the list that has one.

  \<^verbatim>\<open>getToolResults\<close> returns, without an exception, one result per tool message, in
  order, named by that scan, and named \<^verbatim>\<open>"unknown"\<close> when the scan finds nothing.

  \<^verbatim>\<open>getMessages\<close> (\<^verbatim>\<open>toCommonFormat\<close>) returns, without an exception, one canonical message
  per message; that of a tool message carries the one tool result, named by the scan,
  when the scan finds a name that is not empty, and no tool result otherwise.

  So a tool message whose id no assistant tool call has is reported under
  \<^verbatim>\<open>"unknown"\<close> by \<^verbatim>\<open>getToolResults\<close>, and without a tool result, hence without a name, by
  \<^verbatim>\<open>getMessages\<close>.
\<close>

theorem tool_result_named_by_backward_scan:
  "findToolNameInMessages p messages toolCallId = mostRecentMatch messages toolCallId
   \<and> getToolResults p ext a
       = map (\<lambda>t. \<lparr>tr_id = snd t,
                    tr_name = (case mostRecentMatch (req_messages (request a)) (snd t) of
                                 None \<Rightarrow> ''unknown'' | Some name \<Rightarrow> name),
                    tr_content = parseToolContent ext (fst t),
                    tr_isError = False\<rparr>)
             (toolMessagesOf (req_messages (request a)))
   \<and> length (getMessages p ext a) = length (req_messages (request a))
   \<and> (\<forall>i c tool_call_id n.
         i < length (req_messages (request a))
         \<and> req_messages (request a) ! i = ToolMessage c tool_call_id n \<longrightarrow>
           getMessages p ext a ! i =
             \<lparr>cm_role = ''tool'', cm_content = None,
              cm_toolCalls =
                (case mostRecentMatch (req_messages (request a)) tool_call_id of
                   None \<Rightarrow> None
                 | Some name \<Rightarrow>
                     if name = '''' then None
                     else Some [\<lparr>tr_id = tool_call_id, tr_name = name,
                                 tr_content = parseToolContent ext c, tr_isError = False\<rparr>])\<rparr>)
   \<and> (\<forall>i c tool_call_id n.
         i < length (req_messages (request a))
         \<and> req_messages (request a) ! i = ToolMessage c tool_call_id n
         \<and> unmatched (req_messages (request a)) tool_call_id \<longrightarrow>
           \<lparr>tr_id = tool_call_id, tr_name = ''unknown'', tr_content = parseToolContent ext c,
            tr_isError = False\<rparr> \<in> set (getToolResults p ext a)
           \<and> getMessages p ext a ! i
               = \<lparr>cm_role = ''tool'', cm_content = None, cm_toolCalls = None\<rparr>)"
proof -
  let ?ms = "req_messages (request a)"
  let ?res = "\<lambda>t. \<lparr>tr_id = snd t,
                    tr_name = (case mostRecentMatch ?ms (snd t) of
                                 None \<Rightarrow> ''unknown'' | Some name \<Rightarrow> name),
                    tr_content = parseToolContent ext (fst t),
                    tr_isError = False\<rparr>"
  have scan: "findToolNameInMessages p messages toolCallId = mostRecentMatch messages toolCallId"
    by (rule findToolNameInMessages_mostRecentMatch)
  have all: "getToolResults p ext a = map ?res (toolMessagesOf ?ms)"
    by (simp add: getToolResults_def toolResultOf_concat findToolNameInMessages_mostRecentMatch
        nullish_def)
  have len: "length (getMessages p ext a) = length ?ms"
    by (simp add: getMessages_def toCommonFormat_def)
  have named: "getMessages p ext a ! i =
           \<lparr>cm_role = ''tool'', cm_content = None,
            cm_toolCalls =
              (case mostRecentMatch ?ms tool_call_id of
                 None \<Rightarrow> None
               | Some name \<Rightarrow>
                   if name = '''' then None
                   else Some [\<lparr>tr_id = tool_call_id, tr_name = name,
                               tr_content = parseToolContent ext c, tr_isError = False\<rparr>])\<rparr>"
    if "i < length ?ms" and "?ms ! i = ToolMessage c tool_call_id n" for i c tool_call_id n
    using that by (rule getMessages_tool_message)
  have unknown: "\<lparr>tr_id = tool_call_id, tr_name = ''unknown'', tr_content = parseToolContent ext c,
         tr_isError = False\<rparr> \<in> set (getToolResults p ext a)
       \<and> getMessages p ext a ! i = \<lparr>cm_role = ''tool'', cm_content = None, cm_toolCalls = None\<rparr>"
    if i: "i < length ?ms" and m: "?ms ! i = ToolMessage c tool_call_id n"
      and u: "unmatched ?ms tool_call_id" for i c tool_call_id n
  proof -
    from i m have "ToolMessage c tool_call_id n \<in> set ?ms" by (metis nth_mem)
    then have "(c, tool_call_id) \<in> set (toolMessagesOf ?ms)" by (rule toolMessagesOf_member)
    then have "?res (c, tool_call_id) \<in> set (map ?res (toolMessagesOf ?ms))"
      by (simp add: rev_image_eqI)
    then have r: "\<lparr>tr_id = tool_call_id, tr_name = ''unknown'',
                   tr_content = parseToolContent ext c, tr_isError = False\<rparr>
                    \<in> set (getToolResults p ext a)"
      using all unmatched_mostRecentMatch[OF u] by simp
    from named[OF i m] unmatched_mostRecentMatch[OF u]
    have "getMessages p ext a ! i = \<lparr>cm_role = ''tool'', cm_content = None, cm_toolCalls = None\<rparr>"
      by simp
    with r show ?thesis by simp
  qed
  from named have named': "\<forall>i c tool_call_id n.
         i < length ?ms \<and> ?ms ! i = ToolMessage c tool_call_id n \<longrightarrow>
           getMessages p ext a ! i =
             \<lparr>cm_role = ''tool'', cm_content = None,
              cm_toolCalls =
                (case mostRecentMatch ?ms tool_call_id of
                   None \<Rightarrow> None
                 | Some name \<Rightarrow>
                     if name = '''' then None
                     else Some [\<lparr>tr_id = tool_call_id, tr_name = name,
                                 tr_content = parseToolContent ext c, tr_isError = False\<rparr>])\<rparr>"
    by blast
  from unknown have unknown': "\<forall>i c tool_call_id n.
         i < length ?ms \<and> ?ms ! i = ToolMessage c tool_call_id n
         \<and> unmatched ?ms tool_call_id \<longrightarrow>
           \<lparr>tr_id = tool_call_id, tr_name = ''unknown'', tr_content = parseToolContent ext c,
            tr_isError = False\<rparr> \<in> set (getToolResults p ext a)
           \<and> getMessages p ext a ! i
               = \<lparr>cm_role = ''tool'', cm_content = None, cm_toolCalls = None\<rparr>"
    by blast
  from scan all len named' unknown' show ?thesis by (intro conjI)
qed

theorem tool_result_named_by_backward_scan_witness:
  "findToolNameInMessages Minimax exampleMessages ''call_a'' = Some ''list_dir''
   \<and> getToolResults Minimax stubExternals (newRequestAdapter exampleRequest)
       = [\<lparr>tr_id = ''call_a'', tr_name = ''list_dir'', tr_content = JArray [],
           tr_isError = False\<rparr>,
          \<lparr>tr_id = ''call_zz'', tr_name = ''unknown'', tr_content = JString ''not json'',
           tr_isError = False\<rparr>]
   \<and> (2::nat) < length (req_messages (request (newRequestAdapter exampleRequest)))
   \<and> req_messages (request (newRequestAdapter exampleRequest)) ! 2
       = ToolMessage (Text ''[]'') ''call_a'' None
   \<and> getMessages Minimax stubExternals (newRequestAdapter exampleRequest) ! 2
       = \<lparr>cm_role = ''tool'', cm_content = None,
          cm_toolCalls = Some [\<lparr>tr_id = ''call_a'', tr_name = ''list_dir'',
                                tr_content = JArray [], tr_isError = False\<rparr>]\<rparr>
   \<and> (3::nat) < length (req_messages (request (newRequestAdapter exampleRequest)))
   \<and> req_messages (request (newRequestAdapter exampleRequest)) ! 3
       = ToolMessage (Text ''not json'') ''call_zz'' None
   \<and> unmatched (req_messages (request (newRequestAdapter exampleRequest))) ''call_zz''
   \<and> \<lparr>tr_id = ''call_zz'', tr_name = ''unknown'', tr_content = JString ''not json'',
       tr_isError = False\<rparr>
       \<in> set (getToolResults Minimax stubExternals (newRequestAdapter exampleRequest))
   \<and> getMessages Minimax stubExternals (newRequestAdapter exampleRequest) ! 3
       = \<lparr>cm_role = ''tool'', cm_content = None, cm_toolCalls = None\<rparr>"
proof -
  let ?a = "newRequestAdapter exampleRequest"
  have ms: "req_messages (request ?a) = exampleMessages"
    by (simp add: newRequestAdapter_def exampleRequest_def)
  have i2: "(2::nat) < length (req_messages (request ?a))"
    "req_messages (request ?a) ! 2 = ToolMessage (Text ''[]'') ''call_a'' None"
    by (simp_all add: ms exampleMessages_def)
  have i3: "(3::nat) < length (req_messages (request ?a))"
    "req_messages (request ?a) ! 3 = ToolMessage (Text ''not json'') ''call_zz'' None"
    by (simp_all add: ms exampleMessages_def)
  have u: "unmatched (req_messages (request ?a)) ''call_zz''"
    by (simp add: ms unmatched_def exampleMessages_def)
  have r: "mostRecentMatch exampleMessages ''call_a'' = Some ''list_dir''"
    "mostRecentMatch exampleMessages ''call_zz'' = None"
    by (simp_all add: mostRecentMatch_def exampleMessages_def)
  have t: "toolMessagesOf exampleMessages = [(Text ''[]'', ''call_a''), (Text ''not json'', ''call_zz'')]"
    by (simp add: exampleMessages_def)
  have pc: "JSON_parse stubExternals ''[]'' = Some (JArray [])"
    "JSON_parse stubExternals ''not json'' = None"
    by (simp_all add: stubExternals_def)
  note inst = tool_result_named_by_backward_scan
    [of Minimax exampleMessages "''call_a''" stubExternals ?a]
  from inst have scan: "findToolNameInMessages Minimax exampleMessages ''call_a'' = Some ''list_dir''"
    by (simp add: r)
  from inst have results: "getToolResults Minimax stubExternals ?a
       = [\<lparr>tr_id = ''call_a'', tr_name = ''list_dir'', tr_content = JArray [],
           tr_isError = False\<rparr>,
          \<lparr>tr_id = ''call_zz'', tr_name = ''unknown'', tr_content = JString ''not json'',
           tr_isError = False\<rparr>]"
    by (simp add: ms r t pc)
  from inst have named: "\<And>i c tool_call_id n.
         i < length (req_messages (request ?a))
         \<Longrightarrow> req_messages (request ?a) ! i = ToolMessage c tool_call_id n \<Longrightarrow>
           getMessages Minimax stubExternals ?a ! i =
             \<lparr>cm_role = ''tool'', cm_content = None,
              cm_toolCalls =
                (case mostRecentMatch (req_messages (request ?a)) tool_call_id of
                   None \<Rightarrow> None
                 | Some name \<Rightarrow>
                     if name = '''' then None
                     else Some [\<lparr>tr_id = tool_call_id, tr_name = name,
                                 tr_content = parseToolContent stubExternals c,
                                 tr_isError = False\<rparr>])\<rparr>"
    by blast
  from named[OF i2] have m2: "getMessages Minimax stubExternals ?a ! 2
       = \<lparr>cm_role = ''tool'', cm_content = None,
          cm_toolCalls = Some [\<lparr>tr_id = ''call_a'', tr_name = ''list_dir'',
                                tr_content = JArray [], tr_isError = False\<rparr>]\<rparr>"
    by (simp add: ms r pc)
  from inst have unknown: "\<And>i c tool_call_id n.
         i < length (req_messages (request ?a))
         \<Longrightarrow> req_messages (request ?a) ! i = ToolMessage c tool_call_id n
         \<Longrightarrow> unmatched (req_messages (request ?a)) tool_call_id \<Longrightarrow>
           \<lparr>tr_id = tool_call_id, tr_name = ''unknown'',
            tr_content = parseToolContent stubExternals c, tr_isError = False\<rparr>
             \<in> set (getToolResults Minimax stubExternals ?a)
           \<and> getMessages Minimax stubExternals ?a ! i
               = \<lparr>cm_role = ''tool'', cm_content = None, cm_toolCalls = None\<rparr>"
    by blast
  from unknown[OF i3 u] have m3:
    "\<lparr>tr_id = ''call_zz'', tr_name = ''unknown'', tr_content = JString ''not json'',
      tr_isError = False\<rparr> \<in> set (getToolResults Minimax stubExternals ?a)"
    "getMessages Minimax stubExternals ?a ! 3
       = \<lparr>cm_role = ''tool'', cm_content = None, cm_toolCalls = None\<rparr>"
    by (simp_all add: pc)
  from scan results i2 m2 i3 u m3 show ?thesis by (intro conjI)
qed

text \<open>
  C9 as stated fails on the path through \<^verbatim>\<open>toCommonFormat\<close>: the fourth message of the
  example is a tool message whose id no assistant tool call has, and \<^verbatim>\<open>getMessages\<close>
  reports it with its role alone. No tool result, and so no name \<^verbatim>\<open>"unknown"\<close>, is
  attached to it.
\<close>

theorem unmatched_has_no_name_in_getMessages_counterexample:
  "req_messages (request (newRequestAdapter exampleRequest)) ! 3
     = ToolMessage (Text ''not json'') ''call_zz'' None
   \<and> unmatched (req_messages (request (newRequestAdapter exampleRequest))) ''call_zz''
   \<and> toCommonFormat Minimax stubExternals
        (req_messages (request (newRequestAdapter exampleRequest))) ! 3
       = \<lparr>cm_role = ''tool'', cm_content = None, cm_toolCalls = None\<rparr>
   \<and> getMessages Minimax stubExternals (newRequestAdapter exampleRequest) ! 3
       = \<lparr>cm_role = ''tool'', cm_content = None, cm_toolCalls = None\<rparr>"
  by (simp add: newRequestAdapter_def exampleRequest_def exampleMessages_def unmatched_def
      getMessages_def toCommonFormat_def findToolNameInMessages_def truthy_def)

text \<open>
  C10. For the request adapters of both providers and every tool message of the
  request whose id no assistant tool call has: \<^verbatim>\<open>getMessages()\<close> returns, at the
  message's position, a canonical message with the role \<^verbatim>\<open>"tool"\<close> and nothing else (no
  \<^verbatim>\<open>toolCalls\<close>, no content), while \<^verbatim>\<open>getToolResults()\<close> reports the same message's
  result, with its content, under the name \<^verbatim>\<open>"unknown"\<close>.
\<close>

theorem unmatched_tool_message_dropped:
  assumes "i < length (req_messages (request a))"
    and "req_messages (request a) ! i = ToolMessage c tool_call_id n"
    and "unmatched (req_messages (request a)) tool_call_id"
  shows "length (getMessages p ext a) = length (req_messages (request a))
       \<and> getMessages p ext a ! i = \<lparr>cm_role = ''tool'', cm_content = None, cm_toolCalls = None\<rparr>
       \<and> \<lparr>tr_id = tool_call_id, tr_name = ''unknown'', tr_content = parseToolContent ext c,
           tr_isError = False\<rparr> \<in> set (getToolResults p ext a)"
proof -
  let ?ms = "req_messages (request a)"
  from assms(3) have none: "findToolNameInMessages p ?ms tool_call_id = None"
    by (simp add: findToolNameInMessages_mostRecentMatch unmatched_mostRecentMatch)
  have len: "length (getMessages p ext a) = length ?ms"
    by (simp add: getMessages_def toCommonFormat_def)
  have msg: "getMessages p ext a ! i = \<lparr>cm_role = ''tool'', cm_content = None, cm_toolCalls = None\<rparr>"
    using assms(1,2) none by (simp add: getMessages_def toCommonFormat_def truthy_def)
  from assms(1,2) have "ToolMessage c tool_call_id n \<in> set ?ms"
    by (metis nth_mem)
  then have "(c, tool_call_id) \<in> set (toolMessagesOf ?ms)" by (rule toolMessagesOf_member)
  then have "\<lparr>tr_id = tool_call_id, tr_name = ''unknown'', tr_content = parseToolContent ext c,
               tr_isError = False\<rparr> \<in> set (getToolResults p ext a)"
    using none by (force simp: getToolResults_def toolResultOf_concat nullish_def)
  with len msg show ?thesis by blast
qed

theorem unmatched_tool_message_dropped_witness:
  "(3::nat) < length (req_messages (request (newRequestAdapter exampleRequest)))
   \<and> req_messages (request (newRequestAdapter exampleRequest)) ! 3
       = ToolMessage (Text ''not json'') ''call_zz'' None
   \<and> unmatched (req_messages (request (newRequestAdapter exampleRequest))) ''call_zz''
   \<and> getMessages Mistral stubExternals (newRequestAdapter exampleRequest) ! 3
       = \<lparr>cm_role = ''tool'', cm_content = None, cm_toolCalls = None\<rparr>
   \<and> \<lparr>tr_id = ''call_zz'', tr_name = ''unknown'', tr_content = JString ''not json'',
       tr_isError = False\<rparr>
       \<in> set (getToolResults Mistral stubExternals (newRequestAdapter exampleRequest))"
proof -
  have ms: "req_messages (request (newRequestAdapter exampleRequest)) = exampleMessages"
    by (simp add: newRequestAdapter_def exampleRequest_def)
  have h1: "(3::nat) < length (req_messages (request (newRequestAdapter exampleRequest)))"
    by (simp add: ms exampleMessages_def)
  have h2: "req_messages (request (newRequestAdapter exampleRequest)) ! 3
              = ToolMessage (Text ''not json'') ''call_zz'' None"
    by (simp add: ms exampleMessages_def)
  have h3: "unmatched (req_messages (request (newRequestAdapter exampleRequest))) ''call_zz''"
    by (simp add: ms unmatched_def exampleMessages_def)
  have pc: "JSON_parse stubExternals ''not json'' = None"
    by (simp add: stubExternals_def)
  from unmatched_tool_message_dropped[OF h1 h2 h3, of Mistral stubExternals]
  have "getMessages Mistral stubExternals (newRequestAdapter exampleRequest) ! 3
          = \<lparr>cm_role = ''tool'', cm_content = None, cm_toolCalls = None\<rparr>"
    "\<lparr>tr_id = ''call_zz'', tr_name = ''unknown'', tr_content = JString ''not json'',
      tr_isError = False\<rparr>
       \<in> set (getToolResults Mistral stubExternals (newRequestAdapter exampleRequest))"
    by (simp_all add: pc)
  with h1 h2 h3 show ?thesis by blast
qed

section \<open>TOON compression\<close>

lemma messagesAfterToon_Minimax:
  "messagesAfterToon Minimax ext modelName a
     = map (minimax_toonMessage ext modelName) (req_messages (request a))"
  by (simp add: applyToonCompression_def minimax_convertToolResultsToToon_def)

lemma messagesAfterToon_Mistral:
  "messagesAfterToon Mistral ext modelName a
     = map (mistral_toonMessage ext) (req_messages (request a))"
  by (simp add: applyToonCompression_def mistral_convertToolResultsToToon_def Let_def)

text \<open>
  MiniMax's \<^verbatim>\<open>try\<close> block never returns the replaced message: \<^verbatim>\<open>wasCompressed\<close>, read from
  a string, is \<^verbatim>\<open>undefined\<close>.
\<close>

lemma minimax_tryCompress_None: "minimax_tryCompress ext modelName s = None"
  by (simp add: minimax_tryCompress_def answerWasCompressed_def Let_def split: option.splits)

lemma minimax_toonMessage_same: "minimax_toonMessage ext modelName m = m"
  by (cases m) (simp_all add: minimax_tryCompress_None)

text \<open>
  C5, as amended. \<^verbatim>\<open>applyToonCompression\<close> keeps the number and the order of the
  messages. For a tool message of the request:

  for MiniMax the claim holds as it stands. The message is left untouched in every
  case, so also when parsing its serialized content fails and when the compact
  encoding is not smaller, whatever function \<open>count\<close> counts the tokens;

  Mistral leaves the message untouched when its content is not a string, when
  \<^verbatim>\<open>unwrapToolContent\<close> throws, when parsing the unwrapped content fails, when the
  encoder throws and when the tokenizer throws on either text; in every other case
  it replaces the content by the compact encoding, whatever the two token counts
  \<open>tokensBefore\<close> and \<open>tokensAfter\<close> are.
\<close>

theorem toon_untouched_cases:
  assumes "i < length (req_messages (request a))"
    and "req_messages (request a) ! i = ToolMessage c tool_call_id n"
  shows "length (messagesAfterToon p ext modelName a) = length (req_messages (request a))
       \<and> messagesAfterToon Minimax ext modelName a ! i = ToolMessage c tool_call_id n
       \<and> (JSON_parse ext (originalContentOf ext c) = None \<longrightarrow>
            messagesAfterToon Minimax ext modelName a ! i = ToolMessage c tool_call_id n)
       \<and> (\<forall>count parsed cc. JSON_parse ext (originalContentOf ext c) = Some parsed
              \<and> toonEncodeWith ext modelName 4000 parsed = Some cc
              \<and> \<not> (count cc :: nat) < count (originalContentOf ext c) \<longrightarrow>
            messagesAfterToon Minimax ext modelName a ! i = ToolMessage c tool_call_id n)
       \<and> (\<forall>ps. c = Parts ps \<longrightarrow>
            messagesAfterToon Mistral ext modelName a ! i = ToolMessage c tool_call_id n)
       \<and> (\<forall>s. c = Text s \<and> unwrapToolContent ext s = None \<longrightarrow>
            messagesAfterToon Mistral ext modelName a ! i = ToolMessage c tool_call_id n)
       \<and> (\<forall>s u. c = Text s \<and> unwrapToolContent ext s = Some u \<and> JSON_parse ext u = None \<longrightarrow>
            messagesAfterToon Mistral ext modelName a ! i = ToolMessage c tool_call_id n)
       \<and> (\<forall>s u parsed. c = Text s \<and> unwrapToolContent ext s = Some u
              \<and> JSON_parse ext u = Some parsed \<and> toonEncode ext parsed = None \<longrightarrow>
            messagesAfterToon Mistral ext modelName a ! i = ToolMessage c tool_call_id n)
       \<and> (\<forall>s u parsed cc. c = Text s \<and> unwrapToolContent ext s = Some u
              \<and> JSON_parse ext u = Some parsed \<and> toonEncode ext parsed = Some cc
              \<and> (countTokens ext u = None \<or> countTokens ext cc = None) \<longrightarrow>
            messagesAfterToon Mistral ext modelName a ! i = ToolMessage c tool_call_id n)
       \<and> (\<forall>s u parsed cc tokensBefore tokensAfter. c = Text s
              \<and> unwrapToolContent ext s = Some u
              \<and> JSON_parse ext u = Some parsed
              \<and> toonEncode ext parsed = Some cc
              \<and> countTokens ext u = Some tokensBefore
              \<and> countTokens ext cc = Some tokensAfter \<longrightarrow>
            messagesAfterToon Mistral ext modelName a ! i = ToolMessage (Text cc) tool_call_id n)"
proof -
  have len: "length (messagesAfterToon p ext modelName a) = length (req_messages (request a))"
    by (cases p) (simp_all add: messagesAfterToon_Minimax messagesAfterToon_Mistral)
  have mm: "messagesAfterToon Minimax ext modelName a ! i = ToolMessage c tool_call_id n"
    using assms by (simp add: messagesAfterToon_Minimax minimax_toonMessage_same)
  have ms: "messagesAfterToon Mistral ext modelName a ! i
              = mistral_toonMessage ext (ToolMessage c tool_call_id n)"
    using assms by (simp add: messagesAfterToon_Mistral)
  have s1: "\<forall>ps. c = Parts ps \<longrightarrow>
            messagesAfterToon Mistral ext modelName a ! i = ToolMessage c tool_call_id n"
    by (simp add: ms)
  have s2: "\<forall>s. c = Text s \<and> unwrapToolContent ext s = None \<longrightarrow>
            messagesAfterToon Mistral ext modelName a ! i = ToolMessage c tool_call_id n"
    by (simp add: ms mistral_tryCompress_def)
  have s3: "\<forall>s u. c = Text s \<and> unwrapToolContent ext s = Some u \<and> JSON_parse ext u = None \<longrightarrow>
            messagesAfterToon Mistral ext modelName a ! i = ToolMessage c tool_call_id n"
    by (simp add: ms mistral_tryCompress_def)
  have s4: "\<forall>s u parsed. c = Text s \<and> unwrapToolContent ext s = Some u
              \<and> JSON_parse ext u = Some parsed \<and> toonEncode ext parsed = None \<longrightarrow>
            messagesAfterToon Mistral ext modelName a ! i = ToolMessage c tool_call_id n"
    by (simp add: ms mistral_tryCompress_def)
  have s5: "\<forall>s u parsed cc. c = Text s \<and> unwrapToolContent ext s = Some u
              \<and> JSON_parse ext u = Some parsed \<and> toonEncode ext parsed = Some cc
              \<and> (countTokens ext u = None \<or> countTokens ext cc = None) \<longrightarrow>
            messagesAfterToon Mistral ext modelName a ! i = ToolMessage c tool_call_id n"
    by (auto simp: ms mistral_tryCompress_def split: option.splits)
  have s6: "\<forall>s u parsed cc tokensBefore tokensAfter. c = Text s
              \<and> unwrapToolContent ext s = Some u
              \<and> JSON_parse ext u = Some parsed
              \<and> toonEncode ext parsed = Some cc
              \<and> countTokens ext u = Some tokensBefore
              \<and> countTokens ext cc = Some tokensAfter \<longrightarrow>
            messagesAfterToon Mistral ext modelName a ! i = ToolMessage (Text cc) tool_call_id n"
    by (simp add: ms mistral_tryCompress_def)
  from len mm s1 s2 s3 s4 s5 s6 show ?thesis by blast
qed

lemma stub_calls:
  "JSON_parse stubExternals ''[]'' = Some (JArray [])"
  "JSON_parse stubExternals ''not json'' = None"
  "unwrapToolContent stubExternals s = Some s"
  "toonEncode stubExternals (JArray []) = Some ''[0]:''"
  "toonEncodeWith stubExternals m b (JArray []) = Some ''[0]:''"
  "countTokens stubExternals s = Some (length s)"
  by (simp_all add: stubExternals_def)

lemma example_request_messages:
  "req_messages (request (newRequestAdapter exampleRequest)) = exampleMessages"
  by (simp add: newRequestAdapter_def exampleRequest_def)

theorem toon_untouched_cases_witness:
  "(3::nat) < length (req_messages (request (newRequestAdapter exampleRequest)))
   \<and> req_messages (request (newRequestAdapter exampleRequest)) ! 3
       = ToolMessage (Text ''not json'') ''call_zz'' None
   \<and> req_messages (request (newRequestAdapter exampleRequest)) ! 2
       = ToolMessage (Text ''[]'') ''call_a'' None
   \<and> JSON_parse stubExternals ''not json'' = None
   \<and> messagesAfterToon Minimax stubExternals ''abab'' (newRequestAdapter exampleRequest) ! 3
       = ToolMessage (Text ''not json'') ''call_zz'' None
   \<and> messagesAfterToon Mistral stubExternals ''mistral'' (newRequestAdapter exampleRequest) ! 3
       = ToolMessage (Text ''not json'') ''call_zz'' None
   \<and> toonEncodeWith stubExternals ''abab'' 4000 (JArray []) = Some ''[0]:''
   \<and> \<not> length ''[0]:'' < length ''[]''
   \<and> messagesAfterToon Minimax stubExternals ''abab'' (newRequestAdapter exampleRequest) ! 2
       = ToolMessage (Text ''[]'') ''call_a'' None
   \<and> countTokens stubExternals ''[]'' = Some 2
   \<and> countTokens stubExternals ''[0]:'' = Some 4
   \<and> messagesAfterToon Mistral stubExternals ''mistral'' (newRequestAdapter exampleRequest) ! 2
       = ToolMessage (Text ''[0]:'') ''call_a'' None"
proof -
  have i3: "3 < length (req_messages (request (newRequestAdapter exampleRequest)))"
    "req_messages (request (newRequestAdapter exampleRequest)) ! 3
       = ToolMessage (Text ''not json'') ''call_zz'' None"
    by (simp_all add: example_request_messages exampleMessages_def)
  have i2: "2 < length (req_messages (request (newRequestAdapter exampleRequest)))"
    "req_messages (request (newRequestAdapter exampleRequest)) ! 2
       = ToolMessage (Text ''[]'') ''call_a'' None"
    by (simp_all add: example_request_messages exampleMessages_def)
  have a: "messagesAfterToon Minimax stubExternals ''abab'' (newRequestAdapter exampleRequest) ! 3
             = ToolMessage (Text ''not json'') ''call_zz'' None"
    using toon_untouched_cases[OF i3, of Minimax stubExternals "''abab''"]
    by (simp add: stub_calls)
  have b: "messagesAfterToon Mistral stubExternals ''mistral'' (newRequestAdapter exampleRequest) ! 3
             = ToolMessage (Text ''not json'') ''call_zz'' None"
    using toon_untouched_cases[OF i3, of Mistral stubExternals "''mistral''"]
    by (simp add: stub_calls)
  have c: "messagesAfterToon Minimax stubExternals ''abab'' (newRequestAdapter exampleRequest) ! 2
             = ToolMessage (Text ''[]'') ''call_a'' None"
    using toon_untouched_cases[OF i2, of Minimax stubExternals "''abab''"]
    by (simp add: stub_calls)
  have d: "messagesAfterToon Mistral stubExternals ''mistral'' (newRequestAdapter exampleRequest) ! 2
             = ToolMessage (Text ''[0]:'') ''call_a'' None"
    using toon_untouched_cases[OF i2, of Mistral stubExternals "''mistral''"]
    by (simp add: stub_calls)
  from i3 i2(2) a b c d show ?thesis by (simp add: stub_calls)
qed

text \<open>
  C5 as stated fails for Mistral: the tool result \<^verbatim>\<open>[]\<close> parses, its compact encoding
  \<^verbatim>\<open>[0]:\<close> counts 4 tokens against 2, and the message's content is replaced all the
  same.
\<close>

theorem toon_replaces_larger_counterexample:
  "req_messages (request (newRequestAdapter exampleRequest)) ! 2
     = ToolMessage (Text ''[]'') ''call_a'' None
   \<and> unwrapToolContent stubExternals ''[]'' = Some ''[]''
   \<and> JSON_parse stubExternals ''[]'' = Some (JArray [])
   \<and> toonEncode stubExternals (JArray []) = Some ''[0]:''
   \<and> countTokens stubExternals ''[]'' = Some 2
   \<and> countTokens stubExternals ''[0]:'' = Some 4
   \<and> messagesAfterToon Mistral stubExternals ''mistral'' (newRequestAdapter exampleRequest) ! 2
       = ToolMessage (Text ''[0]:'') ''call_a'' None"
  by (simp add: example_request_messages exampleMessages_def stub_calls
      messagesAfterToon_Mistral mistral_tryCompress_def)

end
